theory Spec2Isabelle
  imports Main
begin

section \<open>JavaScript values and array operations used by the components\<close>

text \<open>
  A value that is a string or \<open>null\<close>/\<open>undefined\<close> is a \<open>string option\<close>. Such a value
  is truthy when it is a non-empty string.
\<close>

definition truthy :: "string option \<Rightarrow> bool" where
  "truthy v = (case v of None \<Rightarrow> False | Some s \<Rightarrow> s \<noteq> [])"

text \<open>\<open>v || d\<close> on strings: the default replaces a missing or empty value.\<close>

definition or_default :: "string option \<Rightarrow> string \<Rightarrow> string" where
  "or_default v d = (if truthy v then the v else d)"

text \<open>
  A call that can throw returns a sum: \<open>Inl\<close> carries the \<open>message\<close> property of the thrown
  value (missing when the thrown value has none), \<open>Inr\<close> the value returned.
\<close>

type_synonym thrown = "string option"

text \<open>\<open>xs[i]\<close>: reading outside the array gives \<open>undefined\<close>.\<close>

definition js_at :: "'a list \<Rightarrow> int \<Rightarrow> 'a option" where
  "js_at xs i = (if 0 \<le> i \<and> i < int (length xs) then Some (xs ! nat i) else None)"

text \<open>\<open>xs.slice(0, e)\<close>: a negative end counts from the end of the array.\<close>

definition js_slice0 :: "'a list \<Rightarrow> int \<Rightarrow> 'a list" where
  "js_slice0 xs e = (if e < 0 then take (nat (int (length xs) + e)) xs else take (nat e) xs)"

text \<open>A template literal prints \<open>undefined\<close> for a missing value.\<close>

definition js_text :: "string option \<Rightarrow> string" where
  "js_text v = (case v of None \<Rightarrow> ''undefined'' | Some s \<Rightarrow> s)"

section \<open>Images exchanged with the service (geminiService)\<close>

text \<open>
  \<open>ImageFile\<close> is \<open>{ data, type }\<close>. The data of the file built by
  \<open>handleIterateImage\<close> is \<open>undefined\<close> when the URL has no comma, so the field is optional.
\<close>

record ImageFile =
  img_data :: "string option"
  img_type :: string

text \<open>\<open>`data:${image.type};base64,${image.data}`\<close>\<close>

definition dataUrl :: "ImageFile \<Rightarrow> string" where
  "dataUrl img = ''data:'' @ img_type img @ '';base64,'' @ js_text (img_data img)"

section \<open>The session library (App)\<close>

text \<open>\<open>LibraryItem\<close> is \<open>{ type, imageUrl, originalUrl?, videoUrl? }\<close>.\<close>

record LibraryItem =
  li_type :: string
  li_imageUrl :: string
  li_originalUrl :: "string option"
  li_videoUrl :: "string option"

text \<open>The part of the App state the tools write to. A toast is kept by its message.\<close>

record app =
  libraryCreations :: "LibraryItem list"
  toasts :: "string list"

definition addToast :: "string \<Rightarrow> app \<Rightarrow> app" where
  "addToast message a = a\<lparr>toasts := toasts a @ [message]\<rparr>"

definition handleCreationComplete :: "LibraryItem \<Rightarrow> app \<Rightarrow> app" where
  "handleCreationComplete item a =
     addToast ''Saved to Library!'' (a\<lparr>libraryCreations := item # libraryCreations a\<rparr>)"

section \<open>FaceSwap\<close>

text \<open>
  The state of the component. \<open>loadingMessage\<close> and \<open>initialImageFile\<close> are left out: the
  first only feeds the spinner, the second only the input form.
\<close>

record face_swap =
  fs_isLoading :: bool
  fs_error :: "string option"
  fs_editHistory :: "string list"
  fs_editHistoryIndex :: int
  fs_originalImage :: "string option"
  fs_isSaved :: bool
  fs_isEditing :: bool

definition FaceSwap_init :: face_swap where
  "FaceSwap_init = \<lparr>fs_isLoading = False, fs_error = None, fs_editHistory = [],
     fs_editHistoryIndex = - 1, fs_originalImage = None, fs_isSaved = False,
     fs_isEditing = False\<rparr>"

definition FaceSwap_result :: "face_swap \<Rightarrow> string option" where
  "FaceSwap_result s =
     (if length (fs_editHistory s) > 0 then js_at (fs_editHistory s) (fs_editHistoryIndex s)
      else None)"

definition FaceSwap_canUndo :: "face_swap \<Rightarrow> bool" where
  "FaceSwap_canUndo s = (fs_editHistoryIndex s > 0)"

definition FaceSwap_canRedo :: "face_swap \<Rightarrow> bool" where
  "FaceSwap_canRedo s = (fs_editHistoryIndex s < int (length (fs_editHistory s)) - 1)"

definition FaceSwap_handleEditComplete :: "string \<Rightarrow> face_swap \<Rightarrow> face_swap" where
  "FaceSwap_handleEditComplete newImageUrl s =
     (let newHistory = js_slice0 (fs_editHistory s) (fs_editHistoryIndex s + 1) @ [newImageUrl]
      in s\<lparr>fs_editHistory := newHistory,
            fs_editHistoryIndex := int (length newHistory) - 1,
            fs_isEditing := False,
            fs_isSaved := False\<rparr>)"

definition FaceSwap_handleUndo :: "face_swap \<Rightarrow> face_swap" where
  "FaceSwap_handleUndo s =
     (if FaceSwap_canUndo s then s\<lparr>fs_editHistoryIndex := fs_editHistoryIndex s - 1\<rparr> else s)"

definition FaceSwap_handleRedo :: "face_swap \<Rightarrow> face_swap" where
  "FaceSwap_handleRedo s =
     (if FaceSwap_canRedo s then s\<lparr>fs_editHistoryIndex := fs_editHistoryIndex s + 1\<rparr> else s)"

text \<open>
  \<open>handleFaceSwapGenerate\<close> is suspended at \<open>await performFaceSwap\<close>: the part before the
  call and the part after it are two steps, and the handler is their composition around
  the outcome of the call.
\<close>

definition FaceSwap_generate_begin :: "ImageFile \<Rightarrow> face_swap \<Rightarrow> face_swap" where
  "FaceSwap_generate_begin sourceImage s =
     s\<lparr>fs_isLoading := True, fs_error := None, fs_editHistory := [],
       fs_editHistoryIndex := - 1, fs_isSaved := False,
       fs_originalImage := Some (dataUrl sourceImage)\<rparr>"

definition FaceSwap_generate_end :: "thrown + string \<Rightarrow> face_swap \<Rightarrow> face_swap" where
  "FaceSwap_generate_end outcome s =
     (case outcome of
        Inr imageUrl \<Rightarrow> s\<lparr>fs_editHistory := [imageUrl], fs_editHistoryIndex := 0\<rparr>
      | Inl message \<Rightarrow> s\<lparr>fs_error := Some (or_default message ''An unknown error occurred.'')\<rparr>)
     \<lparr>fs_isLoading := False\<rparr>"


definition FaceSwap_handleSave :: "face_swap \<times> app \<Rightarrow> face_swap \<times> app" where
  "FaceSwap_handleSave sa =
     (let s = fst sa; a = snd sa in
      if truthy (FaceSwap_result s) \<and> truthy (fs_originalImage s) \<and> \<not> fs_isSaved s then
        (s\<lparr>fs_isSaved := True\<rparr>,
         handleCreationComplete
           \<lparr>li_type = ''Face Swap'', li_imageUrl = the (FaceSwap_result s),
            li_originalUrl = fs_originalImage s, li_videoUrl = None\<rparr> a)
      else if fs_isSaved s then (s, addToast ''Already saved!'' a)
      else (s, a))"

definition FaceSwap_handleStartOver :: "face_swap \<Rightarrow> face_swap" where
  "FaceSwap_handleStartOver s =
     s\<lparr>fs_editHistory := [], fs_editHistoryIndex := - 1, fs_error := None,
       fs_originalImage := None, fs_isSaved := False, fs_isEditing := False\<rparr>"

text \<open>What \<open>renderContent\<close> shows; the result view carries the two slider images.\<close>

datatype fs_view =
    FS_Loading
  | FS_Error string
  | FS_Result (fs_beforeImage: string) (fs_afterImage: string)
  | FS_Input

definition FaceSwap_renderContent :: "face_swap \<Rightarrow> fs_view" where
  "FaceSwap_renderContent s =
     (if fs_isLoading s then FS_Loading
      else if truthy (fs_error s) then FS_Error (the (fs_error s))
      else if truthy (FaceSwap_result s) \<and> truthy (fs_originalImage s)
        then FS_Result (the (fs_originalImage s)) (the (FaceSwap_result s))
      else FS_Input)"

text \<open>The user actions and completions that change the FaceSwap state.\<close>

datatype fs_event =
    FS_GenerateBegin ImageFile
  | FS_GenerateEnd "thrown + string"
  | FS_Save
  | FS_OpenEditor
  | FS_CloseEditor
  | FS_EditComplete string
  | FS_Undo
  | FS_Redo
  | FS_StartOver

fun FaceSwap_step :: "face_swap \<times> app \<Rightarrow> fs_event \<Rightarrow> face_swap \<times> app" where
  "FaceSwap_step (s, a) (FS_GenerateBegin sourceImage) = (FaceSwap_generate_begin sourceImage s, a)"
| "FaceSwap_step (s, a) (FS_GenerateEnd outcome) = (FaceSwap_generate_end outcome s, a)"
| "FaceSwap_step (s, a) FS_Save = FaceSwap_handleSave (s, a)"
| "FaceSwap_step (s, a) FS_OpenEditor = (s\<lparr>fs_isEditing := True\<rparr>, a)"
| "FaceSwap_step (s, a) FS_CloseEditor = (s\<lparr>fs_isEditing := False\<rparr>, a)"
| "FaceSwap_step (s, a) (FS_EditComplete newImageUrl) = (FaceSwap_handleEditComplete newImageUrl s, a)"
| "FaceSwap_step (s, a) FS_Undo = (FaceSwap_handleUndo s, a)"
| "FaceSwap_step (s, a) FS_Redo = (FaceSwap_handleRedo s, a)"
| "FaceSwap_step (s, a) FS_StartOver = (FaceSwap_handleStartOver s, a)"

definition FaceSwap_run :: "fs_event list \<Rightarrow> face_swap \<times> app \<Rightarrow> face_swap \<times> app" where
  "FaceSwap_run es sa = foldl FaceSwap_step sa es"

section \<open>BackgroundRemover\<close>

text \<open>\<open>s.split(',')[1]\<close>: the text between the first and the second comma, if there is a comma.\<close>

definition split_comma_1 :: "string \<Rightarrow> string option" where
  "split_comma_1 s =
     (let rest = dropWhile (\<lambda>c. c \<noteq> CHR '','') s
      in if rest = [] then None else Some (takeWhile (\<lambda>c. c \<noteq> CHR '','') (tl rest)))"

text \<open>
  \<open>!s.trim()\<close>: nothing but white space. Strings are UTF-8 byte strings, and the white
  space that \<open>trim\<close> strips is the \<open>WhiteSpace\<close> and \<open>LineTerminator\<close> code points of
  ECMAScript: U+0009 to U+000D and U+0020 (one byte each), U+00A0 (two bytes), and
  U+1680, U+2000 to U+200A, U+2028, U+2029, U+202F, U+205F, U+3000 and U+FEFF (three
  bytes each).
\<close>

definition ascii_white_space :: "char list" where
  "ascii_white_space = [CHR 0x09, CHR 0x0A, CHR 0x0B, CHR 0x0C, CHR 0x0D, CHR 0x20]"

definition white_space_2 :: "string list" where
  "white_space_2 = [[CHR 0xC2, CHR 0xA0]]"

definition white_space_3 :: "string list" where
  "white_space_3 =
     [[CHR 0xE1, CHR 0x9A, CHR 0x80],
      [CHR 0xE2, CHR 0x80, CHR 0x80], [CHR 0xE2, CHR 0x80, CHR 0x81],
      [CHR 0xE2, CHR 0x80, CHR 0x82], [CHR 0xE2, CHR 0x80, CHR 0x83],
      [CHR 0xE2, CHR 0x80, CHR 0x84], [CHR 0xE2, CHR 0x80, CHR 0x85],
      [CHR 0xE2, CHR 0x80, CHR 0x86], [CHR 0xE2, CHR 0x80, CHR 0x87],
      [CHR 0xE2, CHR 0x80, CHR 0x88], [CHR 0xE2, CHR 0x80, CHR 0x89],
      [CHR 0xE2, CHR 0x80, CHR 0x8A],
      [CHR 0xE2, CHR 0x80, CHR 0xA8], [CHR 0xE2, CHR 0x80, CHR 0xA9],
      [CHR 0xE2, CHR 0x80, CHR 0xAF], [CHR 0xE2, CHR 0x81, CHR 0x9F],
      [CHR 0xE3, CHR 0x80, CHR 0x80], [CHR 0xEF, CHR 0xBB, CHR 0xBF]]"

fun js_blank :: "string \<Rightarrow> bool" where
  "js_blank [] = True"
| "js_blank (c # cs) =
     (if c \<in> set ascii_white_space then js_blank cs
      else if take 2 (c # cs) \<in> set white_space_2 then js_blank (drop 1 cs)
      else if take 3 (c # cs) \<in> set white_space_3 then js_blank (drop 2 cs)
      else False)"

datatype remover_stage = BR_input | BR_editing | BR_result

text \<open>The state of the component, without \<open>loadingMessage\<close> and \<open>initialImageFile\<close> as in FaceSwap.\<close>

record background_remover =
  br_stage :: remover_stage
  br_isLoading :: bool
  br_error :: "string option"
  br_originalImage :: "string option"
  br_foregroundImage :: "string option"
  br_editHistory :: "string list"
  br_editHistoryIndex :: int
  br_isSaved :: bool
  br_isCutoutSaved :: bool
  br_isEditing :: bool
  br_backgroundPrompt :: string

definition BackgroundRemover_init :: background_remover where
  "BackgroundRemover_init = \<lparr>br_stage = BR_input, br_isLoading = False, br_error = None,
     br_originalImage = None, br_foregroundImage = None, br_editHistory = [],
     br_editHistoryIndex = - 1, br_isSaved = False, br_isCutoutSaved = False,
     br_isEditing = False, br_backgroundPrompt = []\<rparr>"

definition BackgroundRemover_finalResult :: "background_remover \<Rightarrow> string option" where
  "BackgroundRemover_finalResult s =
     (if length (br_editHistory s) > 0 then js_at (br_editHistory s) (br_editHistoryIndex s)
      else None)"

definition BackgroundRemover_canUndo :: "background_remover \<Rightarrow> bool" where
  "BackgroundRemover_canUndo s = (br_editHistoryIndex s > 0)"

definition BackgroundRemover_canRedo :: "background_remover \<Rightarrow> bool" where
  "BackgroundRemover_canRedo s = (br_editHistoryIndex s < int (length (br_editHistory s)) - 1)"

definition BackgroundRemover_removal_begin :: "ImageFile \<Rightarrow> background_remover \<Rightarrow> background_remover" where
  "BackgroundRemover_removal_begin img s =
     s\<lparr>br_isLoading := True, br_error := None, br_editHistory := [],
       br_editHistoryIndex := - 1, br_isSaved := False, br_isCutoutSaved := False,
       br_originalImage := Some (dataUrl img)\<rparr>"

definition BackgroundRemover_removal_end :: "thrown + string \<Rightarrow> background_remover \<Rightarrow> background_remover" where
  "BackgroundRemover_removal_end outcome s =
     (case outcome of
        Inr url \<Rightarrow> s\<lparr>br_foregroundImage := Some url, br_stage := BR_editing\<rparr>
      | Inl message \<Rightarrow>
          s\<lparr>br_error := Some (or_default message ''An unknown error occurred.''),
            br_stage := BR_input\<rparr>)
     \<lparr>br_isLoading := False\<rparr>"

definition BackgroundRemover_handleInitialRemoval ::
  "(ImageFile \<Rightarrow> thrown + string) \<Rightarrow> ImageFile \<Rightarrow> background_remover \<Rightarrow> background_remover" where
  "BackgroundRemover_handleInitialRemoval performBackgroundRemoval img s =
     BackgroundRemover_removal_end (performBackgroundRemoval img)
       (BackgroundRemover_removal_begin img s)"

text \<open>
  The three background handlers end alike: on success the result becomes the whole
  history and the stage is \<open>result\<close>; on failure the error is set (with the handler's own
  default text) and the stage is \<open>editing\<close>; \<open>finally\<close> clears \<open>isLoading\<close>.
\<close>

definition BackgroundRemover_background_end ::
  "string \<Rightarrow> thrown + string \<Rightarrow> background_remover \<Rightarrow> background_remover" where
  "BackgroundRemover_background_end fallback outcome s =
     (case outcome of
        Inr result \<Rightarrow>
          s\<lparr>br_editHistory := [result], br_editHistoryIndex := 0, br_stage := BR_result\<rparr>
      | Inl message \<Rightarrow>
          s\<lparr>br_error := Some (or_default message fallback), br_stage := BR_editing\<rparr>)
     \<lparr>br_isLoading := False\<rparr>"

definition BackgroundRemover_foregroundFile :: "background_remover \<Rightarrow> ImageFile" where
  "BackgroundRemover_foregroundFile s =
     \<lparr>img_data = split_comma_1 (the (br_foregroundImage s)), img_type = ''image/png''\<rparr>"

definition BackgroundRemover_handleGenerateBackground ::
  "(ImageFile \<Rightarrow> string \<Rightarrow> thrown + string) \<Rightarrow> background_remover \<Rightarrow> background_remover" where
  "BackgroundRemover_handleGenerateBackground compositeWithGeneratedBackground s =
     (if \<not> truthy (br_foregroundImage s) \<or> js_blank (br_backgroundPrompt s) then s
      else BackgroundRemover_background_end ''Failed to generate background.''
             (compositeWithGeneratedBackground (BackgroundRemover_foregroundFile s)
                (br_backgroundPrompt s))
             (s\<lparr>br_isLoading := True, br_error := None\<rparr>))"

text \<open>
  \<open>handleUploadBackground\<close>: \<open>file\<close> is the outcome of reading the chosen file with
  \<open>fileToImageFile\<close>, or \<open>None\<close> when no file was chosen. A failed read is caught like a
  failed call.
\<close>

definition BackgroundRemover_handleUploadBackground ::
  "(ImageFile \<Rightarrow> ImageFile \<Rightarrow> thrown + string) \<Rightarrow> (thrown + ImageFile) option \<Rightarrow>
     background_remover \<Rightarrow> background_remover" where
  "BackgroundRemover_handleUploadBackground compositeWithUploadedBackground file s =
     (case file of
        None \<Rightarrow> s
      | Some fileRead \<Rightarrow>
          if \<not> truthy (br_foregroundImage s) then s
          else BackgroundRemover_background_end ''Failed to composite images.''
                 (case fileRead of
                    Inl message \<Rightarrow> Inl message
                  | Inr backgroundFile \<Rightarrow>
                      compositeWithUploadedBackground (BackgroundRemover_foregroundFile s)
                        backgroundFile)
                 (s\<lparr>br_isLoading := True, br_error := None\<rparr>))"

text \<open>\<open>handleGreenScreen\<close> does not clear the error before the call.\<close>

definition BackgroundRemover_handleGreenScreen ::
  "(string \<Rightarrow> thrown + string) \<Rightarrow> background_remover \<Rightarrow> background_remover" where
  "BackgroundRemover_handleGreenScreen createGreenScreenImage s =
     (if \<not> truthy (br_foregroundImage s) then s
      else BackgroundRemover_background_end ''Failed to apply green screen.''
             (createGreenScreenImage (the (br_foregroundImage s)))
             (s\<lparr>br_isLoading := True\<rparr>))"

definition BackgroundRemover_handleSave ::
  "background_remover \<times> app \<Rightarrow> background_remover \<times> app" where
  "BackgroundRemover_handleSave sa =
     (let s = fst sa; a = snd sa in
      if truthy (BackgroundRemover_finalResult s) \<and> truthy (br_originalImage s) \<and> \<not> br_isSaved s then
        (s\<lparr>br_isSaved := True\<rparr>,
         handleCreationComplete
           \<lparr>li_type = ''Background Edit'', li_imageUrl = the (BackgroundRemover_finalResult s),
            li_originalUrl = br_originalImage s, li_videoUrl = None\<rparr> a)
      else if br_isSaved s then (s, addToast ''Already saved!'' a)
      else (s, a))"

definition BackgroundRemover_handleSaveCutout ::
  "background_remover \<times> app \<Rightarrow> background_remover \<times> app" where
  "BackgroundRemover_handleSaveCutout sa =
     (let s = fst sa; a = snd sa in
      if truthy (br_foregroundImage s) \<and> \<not> br_isCutoutSaved s then
        (s\<lparr>br_isCutoutSaved := True\<rparr>,
         handleCreationComplete
           \<lparr>li_type = ''Foreground Cutout'', li_imageUrl = the (br_foregroundImage s),
            li_originalUrl = None, li_videoUrl = None\<rparr> a)
      else if br_isCutoutSaved s then (s, addToast ''Cutout already saved!'' a)
      else (s, a))"

definition BackgroundRemover_handleEditComplete :: "string \<Rightarrow> background_remover \<Rightarrow> background_remover" where
  "BackgroundRemover_handleEditComplete newImageUrl s =
     (let newHistory = js_slice0 (br_editHistory s) (br_editHistoryIndex s + 1) @ [newImageUrl]
      in s\<lparr>br_editHistory := newHistory,
            br_editHistoryIndex := int (length newHistory) - 1,
            br_isEditing := False,
            br_isSaved := False\<rparr>)"

definition BackgroundRemover_handleUndo :: "background_remover \<Rightarrow> background_remover" where
  "BackgroundRemover_handleUndo s =
     (if BackgroundRemover_canUndo s then s\<lparr>br_editHistoryIndex := br_editHistoryIndex s - 1\<rparr>
      else s)"

definition BackgroundRemover_handleRedo :: "background_remover \<Rightarrow> background_remover" where
  "BackgroundRemover_handleRedo s =
     (if BackgroundRemover_canRedo s then s\<lparr>br_editHistoryIndex := br_editHistoryIndex s + 1\<rparr>
      else s)"

definition BackgroundRemover_handleStartOver :: "background_remover \<Rightarrow> background_remover" where
  "BackgroundRemover_handleStartOver s =
     s\<lparr>br_stage := BR_input, br_error := None, br_originalImage := None,
       br_foregroundImage := None, br_editHistory := [], br_editHistoryIndex := - 1,
       br_isSaved := False, br_isCutoutSaved := False, br_isEditing := False,
       br_backgroundPrompt := []\<rparr>"

text \<open>The \<open>Try Again\<close> button of the error panel.\<close>

definition BackgroundRemover_tryAgain :: "background_remover \<Rightarrow> background_remover" where
  "BackgroundRemover_tryAgain s = s\<lparr>br_error := None, br_stage := BR_editing\<rparr>"

datatype br_view =
    BR_Loading
  | BR_Error string
  | BR_Result (br_beforeImage: string) (br_afterImage: string)
  | BR_Editing string
  | BR_Input

definition BackgroundRemover_renderContent :: "background_remover \<Rightarrow> br_view" where
  "BackgroundRemover_renderContent s =
     (if br_isLoading s then BR_Loading
      else if truthy (br_error s) then BR_Error (the (br_error s))
      else if br_stage s = BR_result \<and> truthy (BackgroundRemover_finalResult s)
              \<and> truthy (br_originalImage s)
        then BR_Result (the (br_originalImage s)) (the (BackgroundRemover_finalResult s))
      else if br_stage s = BR_editing \<and> truthy (br_foregroundImage s)
        then BR_Editing (the (br_foregroundImage s))
      else BR_Input)"

text \<open>
  While a call is pending \<open>renderContent\<close> shows only the spinner, so no other action runs
  between the two parts of a BackgroundRemover handler: an event carries the outcome of
  its call.
\<close>

datatype br_event =
    BR_InitialRemoval ImageFile "thrown + string"
  | BR_SetBackgroundPrompt string
  | BR_GenerateBackground "thrown + string"
  | BR_UploadBackground "(thrown + ImageFile) option" "thrown + string"
  | BR_GreenScreen "thrown + string"
  | BR_Save
  | BR_SaveCutout
  | BR_OpenEditor
  | BR_CloseEditor
  | BR_EditComplete string
  | BR_Undo
  | BR_Redo
  | BR_StartOver
  | BR_TryAgain

fun BackgroundRemover_step ::
  "background_remover \<times> app \<Rightarrow> br_event \<Rightarrow> background_remover \<times> app" where
  "BackgroundRemover_step (s, a) (BR_InitialRemoval img outcome) =
     (BackgroundRemover_handleInitialRemoval (\<lambda>_. outcome) img s, a)"
| "BackgroundRemover_step (s, a) (BR_SetBackgroundPrompt p) = (s\<lparr>br_backgroundPrompt := p\<rparr>, a)"
| "BackgroundRemover_step (s, a) (BR_GenerateBackground outcome) =
     (BackgroundRemover_handleGenerateBackground (\<lambda>_ _. outcome) s, a)"
| "BackgroundRemover_step (s, a) (BR_UploadBackground file outcome) =
     (BackgroundRemover_handleUploadBackground (\<lambda>_ _. outcome) file s, a)"
| "BackgroundRemover_step (s, a) (BR_GreenScreen outcome) =
     (BackgroundRemover_handleGreenScreen (\<lambda>_. outcome) s, a)"
| "BackgroundRemover_step (s, a) BR_Save = BackgroundRemover_handleSave (s, a)"
| "BackgroundRemover_step (s, a) BR_SaveCutout = BackgroundRemover_handleSaveCutout (s, a)"
| "BackgroundRemover_step (s, a) BR_OpenEditor = (s\<lparr>br_isEditing := True\<rparr>, a)"
| "BackgroundRemover_step (s, a) BR_CloseEditor = (s\<lparr>br_isEditing := False\<rparr>, a)"
| "BackgroundRemover_step (s, a) (BR_EditComplete newImageUrl) =
     (BackgroundRemover_handleEditComplete newImageUrl s, a)"
| "BackgroundRemover_step (s, a) BR_Undo = (BackgroundRemover_handleUndo s, a)"
| "BackgroundRemover_step (s, a) BR_Redo = (BackgroundRemover_handleRedo s, a)"
| "BackgroundRemover_step (s, a) BR_StartOver = (BackgroundRemover_handleStartOver s, a)"
| "BackgroundRemover_step (s, a) BR_TryAgain = (BackgroundRemover_tryAgain s, a)"

definition BackgroundRemover_run ::
  "br_event list \<Rightarrow> background_remover \<times> app \<Rightarrow> background_remover \<times> app" where
  "BackgroundRemover_run es sa = foldl BackgroundRemover_step sa es"

section \<open>Image generation (geminiService.generateImage)\<close>

text \<open>A request or response part: a text, or inline data with its MIME type.\<close>

datatype part = TextPart string | InlineData "string option" string

definition imageToPart :: "ImageFile \<Rightarrow> part" where
  "imageToPart img = InlineData (img_data img) (img_type img)"

definition generateImage_parts :: "string \<Rightarrow> ImageFile option \<Rightarrow> ImageFile list \<Rightarrow> part list" where
  "generateImage_parts prompt sourceImage assets =
     (let allImages = (case sourceImage of Some src \<Rightarrow> src # assets | None \<Rightarrow> assets)
      in [TextPart prompt] @ map imageToPart allImages)"

text \<open>The first response part with inline data is the image; without one the call throws.\<close>

fun generateImage_result :: "part list \<Rightarrow> thrown + string" where
  "generateImage_result [] = Inl (Some ''No image was generated.'')"
| "generateImage_result (TextPart t # ps) = generateImage_result ps"
| "generateImage_result (InlineData d m # ps) = Inr (''data:'' @ m @ '';base64,'' @ js_text d)"

text \<open>
  \<open>backend\<close> stands for \<open>getAi().models.generateContent\<close> up to the parts of the first
  candidate: it throws when the client cannot be built, when the service reports a
  failure or when the response has no candidate. \<open>aspectRatio\<close> is a parameter the body
  never reads.
\<close>

definition generateImage ::
  "(part list \<Rightarrow> thrown + part list) \<Rightarrow> string \<Rightarrow> ImageFile option \<Rightarrow> ImageFile list \<Rightarrow> string
     \<Rightarrow> thrown + string" where
  "generateImage backend prompt sourceImage assets aspectRatio =
     (case backend (generateImage_parts prompt sourceImage assets) of
        Inl message \<Rightarrow> Inl message
      | Inr parts \<Rightarrow> generateImage_result parts)"

section \<open>CreativeAssistant\<close>

record CreativeControls =
  cc_artisticStyle :: string
  cc_aspectRatio :: string
  cc_genre :: string
  cc_lighting :: string
  cc_mood :: string
  cc_cameraAngle :: string

datatype assistant_stage = CA_prompt | CA_content | CA_iterate

text \<open>The state of the component; \<open>sourceAudio\<close>, a file only handed on to the service, is left out.\<close>

record creative_assistant =
  ca_isLoading :: bool
  ca_error :: "string option"
  ca_topic :: string
  ca_sourceImage :: "ImageFile option"
  ca_assetLibrary :: "ImageFile list"
  ca_generateLyricsFlag :: bool
  ca_controls :: CreativeControls
  ca_stage :: assistant_stage
  ca_detailedPrompt :: string
  ca_textResult :: string
  ca_lyricsResult :: string
  ca_imageHistory :: "string list"
  ca_currentHistoryIndex :: int
  ca_savedImageUrls :: "string list"
  ca_editingImage :: "string option"

definition CreativeAssistant_init :: creative_assistant where
  "CreativeAssistant_init =
     \<lparr>ca_isLoading = False, ca_error = None, ca_topic = [], ca_sourceImage = None,
      ca_assetLibrary = [], ca_generateLyricsFlag = False,
      ca_controls = \<lparr>cc_artisticStyle = ''Photorealistic'', cc_aspectRatio = ''16:9'',
        cc_genre = ''None'', cc_lighting = ''Cinematic'', cc_mood = ''Neutral'',
        cc_cameraAngle = ''Medium Shot''\<rparr>,
      ca_stage = CA_prompt, ca_detailedPrompt = [], ca_textResult = [], ca_lyricsResult = [],
      ca_imageHistory = [], ca_currentHistoryIndex = 0, ca_savedImageUrls = [],
      ca_editingImage = None\<rparr>"

text \<open>
  \<open>handleGeneratePrompt\<close>; \<open>outcome\<close> is the outcome of the prompt call
  (\<open>generateDetailedPromptFromImage\<close> with a source image, \<open>generateDetailedPromptFromText\<close>
  without).
\<close>

definition CreativeAssistant_handleGeneratePrompt ::
  "thrown + string \<Rightarrow> string \<Rightarrow> ImageFile option \<Rightarrow> ImageFile list \<Rightarrow> CreativeControls
     \<Rightarrow> creative_assistant \<Rightarrow> creative_assistant" where
  "CreativeAssistant_handleGeneratePrompt outcome currentTopic currentSourceImage currentAssets
       currentControls s =
     (let s1 = s\<lparr>ca_isLoading := True, ca_error := None, ca_topic := currentTopic,
                  ca_sourceImage := currentSourceImage, ca_assetLibrary := currentAssets,
                  ca_controls := currentControls\<rparr>
      in (case outcome of
            Inr generatedPrompt \<Rightarrow> s1\<lparr>ca_detailedPrompt := generatedPrompt, ca_stage := CA_content\<rparr>
          | Inl message \<Rightarrow> s1\<lparr>ca_error := Some (or_default message ''Failed to generate prompt.'')\<rparr>)
         \<lparr>ca_isLoading := False\<rparr>)"

subsection \<open>handleGenerateContent: one invocation, step by step\<close>

text \<open>
  The handler is an async function: it is suspended at \<open>await generateImage(...)\<close> and at
  \<open>await Promise.all(streamPromises)\<close>, and each stream task is suspended at every chunk.
  An invocation in flight is a \<open>content_run\<close>: where the handler is suspended, the state of
  the two stream tasks, and the render state the handler closed over (it reads
  \<open>generateLyricsFlag\<close> and \<open>controls.genre\<close> from there).
\<close>

datatype task = NotStarted | Running | Fulfilled | Rejected

datatype content_phase = AwaitImage | AwaitStreams | Settled

record content_run =
  cr_finalPrompt :: string
  cr_closure :: creative_assistant
  cr_phase :: content_phase
  cr_text :: task
  cr_lyrics :: task

text \<open>What the event loop can deliver to an invocation in flight.\<close>

datatype content_event =
    ImageSettled "thrown + string"
  | TextChunk string
  | TextDone
  | TextThrew thrown
  | LyricsChunk string
  | LyricsDone
  | LyricsThrew thrown

definition content_begin :: "string \<Rightarrow> creative_assistant \<Rightarrow> content_run \<times> creative_assistant" where
  "content_begin finalPrompt s =
     (\<lparr>cr_finalPrompt = finalPrompt, cr_closure = s, cr_phase = AwaitImage,
       cr_text = NotStarted, cr_lyrics = NotStarted\<rparr>,
      s\<lparr>ca_isLoading := True, ca_error := None, ca_detailedPrompt := finalPrompt,
        ca_textResult := [], ca_lyricsResult := []\<rparr>)"

text \<open>The \<open>catch\<close> and \<open>finally\<close> blocks.\<close>

definition content_fail ::
  "thrown \<Rightarrow> content_run \<times> creative_assistant \<Rightarrow> content_run \<times> creative_assistant" where
  "content_fail message c =
     ((fst c)\<lparr>cr_phase := Settled\<rparr>,
      (snd c)\<lparr>ca_error := Some (or_default message ''An error occurred during content generation.''),
              ca_isLoading := False\<rparr>)"

text \<open>
  \<open>await Promise.all(streamPromises); setStage('iterate')\<close>: the handler resumes once every
  task pushed to \<open>streamPromises\<close> is fulfilled. A task that was never started is not in
  the array.
\<close>

definition content_join :: "content_run \<times> creative_assistant \<Rightarrow> content_run \<times> creative_assistant" where
  "content_join c =
     (let r = fst c; s = snd c in
      if cr_phase r = AwaitStreams \<and> cr_text r = Fulfilled
         \<and> (cr_lyrics r = Fulfilled \<or> cr_lyrics r = NotStarted)
      then (r\<lparr>cr_phase := Settled\<rparr>, s\<lparr>ca_stage := CA_iterate, ca_isLoading := False\<rparr>)
      else c)"

text \<open>
  One event. \<open>None\<close>: the event cannot occur (a chunk of a task that is not running, a
  second result of the image call). A rejected task makes \<open>Promise.all\<close> reject at once,
  if the handler is still waiting for it; the other task keeps running and keeps
  appending its chunks.
\<close>

fun content_step ::
  "content_run \<times> creative_assistant \<Rightarrow> content_event \<Rightarrow> (content_run \<times> creative_assistant) option" where
  "content_step (r, s) (ImageSettled outcome) =
     (if cr_phase r \<noteq> AwaitImage then None
      else (case outcome of
              Inl message \<Rightarrow> Some (content_fail message (r, s))
            | Inr url \<Rightarrow>
                Some (r\<lparr>cr_phase := AwaitStreams,
                        cr_text := Running,
                        cr_lyrics := (if ca_generateLyricsFlag (cr_closure r)
                                         \<and> cc_genre (ca_controls (cr_closure r)) \<noteq> ''None''
                                      then Running else NotStarted)\<rparr>,
                      s\<lparr>ca_imageHistory := [url], ca_currentHistoryIndex := 0\<rparr>)))"
| "content_step (r, s) (TextChunk chunk) =
     (if cr_text r \<noteq> Running then None
      else Some (r, s\<lparr>ca_textResult := ca_textResult s @ chunk\<rparr>))"
| "content_step (r, s) TextDone =
     (if cr_text r \<noteq> Running then None
      else Some (content_join (r\<lparr>cr_text := Fulfilled\<rparr>, s)))"
| "content_step (r, s) (TextThrew message) =
     (if cr_text r \<noteq> Running then None
      else if cr_phase r = AwaitStreams then Some (content_fail message (r\<lparr>cr_text := Rejected\<rparr>, s))
      else Some (r\<lparr>cr_text := Rejected\<rparr>, s))"
| "content_step (r, s) (LyricsChunk chunk) =
     (if cr_lyrics r \<noteq> Running then None
      else Some (r, s\<lparr>ca_lyricsResult := ca_lyricsResult s @ chunk\<rparr>))"
| "content_step (r, s) LyricsDone =
     (if cr_lyrics r \<noteq> Running then None
      else Some (content_join (r\<lparr>cr_lyrics := Fulfilled\<rparr>, s)))"
| "content_step (r, s) (LyricsThrew message) =
     (if cr_lyrics r \<noteq> Running then None
      else if cr_phase r = AwaitStreams then Some (content_fail message (r\<lparr>cr_lyrics := Rejected\<rparr>, s))
      else Some (r\<lparr>cr_lyrics := Rejected\<rparr>, s))"

fun content_exec ::
  "content_run \<times> creative_assistant \<Rightarrow> content_event list \<Rightarrow> (content_run \<times> creative_assistant) option" where
  "content_exec c [] = Some c"
| "content_exec c (e # es) =
     (case content_step c e of None \<Rightarrow> None | Some c' \<Rightarrow> content_exec c' es)"

subsection \<open>handleIterateImage\<close>

text \<open>
  \<open>lastImage.match(/data:(image\/[^;]+);/)?.[1]\<close>: the leftmost place where \<open>data:image/\<close>
  is followed by a non-empty run of characters other than \<open>;\<close> and then a \<open>;\<close>; the group
  is \<open>image/\<close> with the run.
\<close>

definition mime_at :: "string \<Rightarrow> string option" where
  "mime_at s =
     (if take 11 s = ''data:image/'' then
        (let rest = drop 11 s; run = takeWhile (\<lambda>c. c \<noteq> CHR '';'') rest
         in if run \<noteq> [] \<and> length run < length rest then Some (''image/'' @ run) else None)
      else None)"

fun match_image_mime :: "string \<Rightarrow> string option" where
  "match_image_mime [] = None"
| "match_image_mime (c # cs) =
     (case mime_at (c # cs) of Some t \<Rightarrow> Some t | None \<Rightarrow> match_image_mime cs)"

definition lastImageFile :: "string \<Rightarrow> ImageFile" where
  "lastImageFile lastImage =
     \<lparr>img_data = split_comma_1 lastImage,
      img_type = or_default (match_image_mime lastImage) ''image/png''\<rparr>"

text \<open>
  The part after \<open>await generateImage(...)\<close>. \<open>imageHistory\<close> is the array the handler
  closed over when it was called, not the state at the time the call returns.
\<close>

definition CreativeAssistant_iterate_end ::
  "string list \<Rightarrow> thrown + string \<Rightarrow> creative_assistant \<Rightarrow> creative_assistant" where
  "CreativeAssistant_iterate_end imageHistory outcome s =
     (case outcome of
        Inr url \<Rightarrow>
          (let newHistory = imageHistory @ [url]
           in s\<lparr>ca_imageHistory := newHistory,
                 ca_currentHistoryIndex := int (length newHistory) - 1\<rparr>)
      | Inl message \<Rightarrow> s\<lparr>ca_error := Some (or_default message ''Failed to iterate on the image.'')\<rparr>)
     \<lparr>ca_isLoading := False\<rparr>"

text \<open>
  With an empty history \<open>lastImage\<close> is \<open>undefined\<close> and \<open>lastImage.split\<close> raises a
  TypeError before the \<open>try\<close> block: nothing catches it and \<open>isLoading\<close> stays set.
\<close>

datatype iterate_result =
    IterateTypeError (iterate_state: creative_assistant)
  | IterateDone (iterate_state: creative_assistant)

definition CreativeAssistant_handleIterateImage ::
  "(part list \<Rightarrow> thrown + part list) \<Rightarrow> string \<Rightarrow> creative_assistant \<Rightarrow> iterate_result" where
  "CreativeAssistant_handleIterateImage backend iterationPrompt s =
     (let s1 = s\<lparr>ca_isLoading := True, ca_error := None\<rparr>
      in case js_at (ca_imageHistory s) (int (length (ca_imageHistory s)) - 1) of
           None \<Rightarrow> IterateTypeError s1
         | Some lastImage \<Rightarrow>
             IterateDone
               (CreativeAssistant_iterate_end (ca_imageHistory s)
                  (generateImage backend iterationPrompt (Some (lastImageFile lastImage)) []
                     (cc_aspectRatio (ca_controls s)))
                  s1))"

subsection \<open>The other handlers\<close>

definition CreativeAssistant_handleStartOver :: "creative_assistant \<Rightarrow> creative_assistant" where
  "CreativeAssistant_handleStartOver s =
     s\<lparr>ca_isLoading := False, ca_error := None, ca_topic := [], ca_sourceImage := None,
       ca_assetLibrary := [], ca_stage := CA_prompt, ca_detailedPrompt := [],
       ca_textResult := [], ca_lyricsResult := [], ca_imageHistory := [],
       ca_currentHistoryIndex := 0, ca_savedImageUrls := [], ca_editingImage := None\<rparr>"

definition CreativeAssistant_currentImage :: "creative_assistant \<Rightarrow> string option" where
  "CreativeAssistant_currentImage s = js_at (ca_imageHistory s) (ca_currentHistoryIndex s)"

definition CreativeAssistant_handleSaveToLibrary ::
  "creative_assistant \<times> app \<Rightarrow> creative_assistant \<times> app" where
  "CreativeAssistant_handleSaveToLibrary sa =
     (let s = fst sa; a = snd sa; currentImage = CreativeAssistant_currentImage s in
      if truthy currentImage \<and> the currentImage \<notin> set (ca_savedImageUrls s) then
        (s\<lparr>ca_savedImageUrls := ca_savedImageUrls s @ [the currentImage]\<rparr>,
         handleCreationComplete
           \<lparr>li_type = ''Jackson'' @ [CHR 0x27] @ ''s Creative AI'', li_imageUrl = the currentImage,
            li_originalUrl = None, li_videoUrl = None\<rparr> a)
      else (s, addToast ''Already saved!'' a))"

definition CreativeAssistant_handleEditComplete :: "string \<Rightarrow> creative_assistant \<Rightarrow> creative_assistant" where
  "CreativeAssistant_handleEditComplete newImageUrl s =
     (let newHistory = ca_imageHistory s @ [newImageUrl]
      in s\<lparr>ca_imageHistory := newHistory,
            ca_currentHistoryIndex := int (length newHistory) - 1,
            ca_editingImage := None\<rparr>)"

text \<open>\<open>onGoToLatest\<close>, and the history thumbnails: one button for each index of the history.\<close>

definition CreativeAssistant_goToLatest :: "creative_assistant \<Rightarrow> creative_assistant" where
  "CreativeAssistant_goToLatest s =
     s\<lparr>ca_currentHistoryIndex := int (length (ca_imageHistory s)) - 1\<rparr>"

definition CreativeAssistant_isViewingLatest :: "creative_assistant \<Rightarrow> bool" where
  "CreativeAssistant_isViewingLatest s =
     (ca_currentHistoryIndex s = int (length (ca_imageHistory s)) - 1)"

definition CreativeAssistant_selectThumbnail :: "nat \<Rightarrow> creative_assistant \<Rightarrow> creative_assistant" where
  "CreativeAssistant_selectThumbnail index s =
     (if index < length (ca_imageHistory s) then s\<lparr>ca_currentHistoryIndex := int index\<rparr> else s)"

text \<open>The image area of \<open>renderResults\<close>: the slider, or the current image alone.\<close>

datatype ca_image_panel =
    CA_BeforeAfter (ca_beforeImage: string) (ca_afterImage: "string option")
  | CA_Single "string option"

definition CreativeAssistant_renderResults :: "creative_assistant \<Rightarrow> ca_image_panel" where
  "CreativeAssistant_renderResults s =
     (let currentImage = js_at (ca_imageHistory s) (ca_currentHistoryIndex s);
          previousImage = js_at (ca_imageHistory s) (ca_currentHistoryIndex s - 1)
      in if truthy previousImage then CA_BeforeAfter (the previousImage) currentImage
         else CA_Single currentImage)"

text \<open>
  The events that change the CreativeAssistant state. The prompt and content handlers run
  behind the spinner, so their events carry the whole call; the results stay on screen
  while an iteration is pending, so its completion is an event of its own and carries the
  history it closed over. A content event whose sequence of deliveries cannot occur
  changes nothing.
\<close>

datatype ca_event =
    CA_GeneratePrompt "thrown + string" string "ImageFile option" "ImageFile list" CreativeControls
  | CA_SetGenerateLyricsFlag bool
  | CA_GenerateContent string "content_event list"
  | CA_IterateBegin
  | CA_IterateEnd "string list" "thrown + string"
  | CA_SelectThumbnail nat
  | CA_GoToLatest
  | CA_OpenEditor
  | CA_CloseEditor
  | CA_EditComplete string
  | CA_Save
  | CA_StartOver

fun CreativeAssistant_step ::
  "creative_assistant \<times> app \<Rightarrow> ca_event \<Rightarrow> creative_assistant \<times> app" where
  "CreativeAssistant_step (s, a) (CA_GeneratePrompt outcome t src assets ctl) =
     (CreativeAssistant_handleGeneratePrompt outcome t src assets ctl s, a)"
| "CreativeAssistant_step (s, a) (CA_SetGenerateLyricsFlag b) = (s\<lparr>ca_generateLyricsFlag := b\<rparr>, a)"
| "CreativeAssistant_step (s, a) (CA_GenerateContent finalPrompt es) =
     (case content_exec (content_begin finalPrompt s) es of
        None \<Rightarrow> (s, a)
      | Some c \<Rightarrow> (snd c, a))"
| "CreativeAssistant_step (s, a) CA_IterateBegin = (s\<lparr>ca_isLoading := True, ca_error := None\<rparr>, a)"
| "CreativeAssistant_step (s, a) (CA_IterateEnd imageHistory outcome) =
     (CreativeAssistant_iterate_end imageHistory outcome s, a)"
| "CreativeAssistant_step (s, a) (CA_SelectThumbnail index) = (CreativeAssistant_selectThumbnail index s, a)"
| "CreativeAssistant_step (s, a) CA_GoToLatest = (CreativeAssistant_goToLatest s, a)"
| "CreativeAssistant_step (s, a) CA_OpenEditor =
     (s\<lparr>ca_editingImage := CreativeAssistant_currentImage s\<rparr>, a)"
| "CreativeAssistant_step (s, a) CA_CloseEditor = (s\<lparr>ca_editingImage := None\<rparr>, a)"
| "CreativeAssistant_step (s, a) (CA_EditComplete newImageUrl) =
     (CreativeAssistant_handleEditComplete newImageUrl s, a)"
| "CreativeAssistant_step (s, a) CA_Save = CreativeAssistant_handleSaveToLibrary (s, a)"
| "CreativeAssistant_step (s, a) CA_StartOver = (CreativeAssistant_handleStartOver s, a)"

definition CreativeAssistant_run ::
  "ca_event list \<Rightarrow> creative_assistant \<times> app \<Rightarrow> creative_assistant \<times> app" where
  "CreativeAssistant_run es sa = foldl CreativeAssistant_step sa es"

section \<open>Video generation (geminiService.animateCharacter)\<close>

text \<open>
  What the poller reads of an operation: \<open>operation.done\<close> (a missing value is falsy) and
  \<open>operation.response?.generatedVideos?.[0]?.video?.uri\<close>.
\<close>

record operation =
  op_done :: bool
  op_uri :: "string option"

text \<open>The effects of the polling loop, in order: a timer of so many milliseconds, a status query.\<close>

datatype poll_effect = Wait nat | Query

text \<open>
  \<open>while (!operation.done) { await (timer of 10000 ms); operation = await getVideosOperation(...) }\<close>.
  \<open>getVideosOperation n\<close> is the outcome of the query number \<open>n\<close> (from 0), \<open>n\<close> counts
  the queries made so far and \<open>log\<close> holds the effects so far. The loop has no bound: with
  a service that never reports completion it does not return, which is the value \<open>None\<close>.
\<close>

partial_function (option) poll_loop ::
  "(nat \<Rightarrow> thrown + operation) \<Rightarrow> nat \<Rightarrow> poll_effect list \<Rightarrow> operation
     \<Rightarrow> (poll_effect list \<times> (thrown + operation)) option" where
  "poll_loop getVideosOperation n log operation =
     (if op_done operation then Some (log, Inr operation)
      else (case getVideosOperation n of
              Inl message \<Rightarrow> Some (log @ [Wait 10000, Query], Inl message)
            | Inr operation' \<Rightarrow>
                poll_loop getVideosOperation (Suc n) (log @ [Wait 10000, Query]) operation'))"

text \<open>
  \<open>animateCharacter\<close>: \<open>apiKey\<close> is \<open>process.env.API_KEY\<close>, \<open>generateVideos\<close> the outcome of the
  submission. The result is the effects of the loop with the download link or the error
  thrown.
\<close>

definition animateCharacter ::
  "string option \<Rightarrow> thrown + operation \<Rightarrow> (nat \<Rightarrow> thrown + operation)
     \<Rightarrow> (poll_effect list \<times> (thrown + string)) option" where
  "animateCharacter apiKey generateVideos getVideosOperation =
     (if \<not> truthy apiKey then
        Some ([], Inl (Some ''API_KEY environment variable is not configured.''))
      else (case generateVideos of
              Inl message \<Rightarrow> Some ([], Inl message)
            | Inr operation \<Rightarrow>
                (case poll_loop getVideosOperation 0 [] operation of
                   None \<Rightarrow> None
                 | Some (log, Inl message) \<Rightarrow> Some (log, Inl message)
                 | Some (log, Inr final) \<Rightarrow>
                     (let downloadLink = op_uri final in
                      if \<not> truthy downloadLink then
                        Some (log, Inl (Some ''Video generation failed to produce a download link.''))
                      else Some (log, Inr (the downloadLink))))))"

section \<open>CharacterAnimator\<close>

definition VEO_API_KEY_ERROR_MESSAGE :: string where
  "VEO_API_KEY_ERROR_MESSAGE = ''Requested entity was not found.''"

text \<open>\<open>s.includes(t)\<close>: \<open>t\<close> occurs in \<open>s\<close>.\<close>

fun js_includes :: "string \<Rightarrow> string \<Rightarrow> bool" where
  "js_includes [] t = (t = [])"
| "js_includes (c # cs) t = (take (length t) (c # cs) = t \<or> js_includes cs t)"

datatype ApiKeyStatus = Checking | NotSelected | Selected

record character_animator =
  an_isLoading :: bool
  an_error :: "string option"
  an_resultUrl :: "string option"
  an_originalCharacterUrl :: "string option"
  an_loadingMessage :: string
  an_apiKeyStatus :: ApiKeyStatus

definition CharacterAnimator_init :: character_animator where
  "CharacterAnimator_init = \<lparr>an_isLoading = False, an_error = None, an_resultUrl = None,
     an_originalCharacterUrl = None, an_loadingMessage = [], an_apiKeyStatus = Checking\<rparr>"

text \<open>
  What \<open>handleAnimate\<close> reads of the response of \<open>fetch\<close>: \<open>ok\<close>, \<open>statusText\<close>, the body as
  text, and the object URL made of the body as a blob.
\<close>

record fetch_response =
  resp_ok :: bool
  resp_statusText :: string
  resp_text :: string
  resp_blobUrl :: string

text \<open>The \<open>catch\<close> and \<open>finally\<close> blocks of \<open>handleAnimate\<close>.\<close>

definition CharacterAnimator_caught ::
  "thrown \<Rightarrow> character_animator \<times> app \<Rightarrow> character_animator \<times> app" where
  "CharacterAnimator_caught message sa =
     ((fst sa)\<lparr>an_error := Some (or_default message ''An unknown error occurred during animation.''),
              an_isLoading := False\<rparr>, snd sa)"

definition CharacterAnimator_handleAnimate ::
  "(ImageFile \<Rightarrow> string \<Rightarrow> thrown + string) \<Rightarrow> (string \<Rightarrow> thrown + fetch_response) \<Rightarrow> string option
     \<Rightarrow> ImageFile \<Rightarrow> string \<Rightarrow> character_animator \<times> app \<Rightarrow> character_animator \<times> app" where
  "CharacterAnimator_handleAnimate animate fetch apiKey characterImage motion sa =
     (let originalUrl = dataUrl characterImage;
          s1 = (fst sa)\<lparr>an_isLoading := True, an_error := None, an_resultUrl := None,
                 an_originalCharacterUrl := Some originalUrl,
                 an_loadingMessage :=
                   ''Preparing character for animation... this can take a few minutes.''\<rparr>;
          a = snd sa
      in case animate characterImage motion of
           Inl message \<Rightarrow> CharacterAnimator_caught message (s1, a)
         | Inr videoUrl \<Rightarrow>
             (let s2 = s1\<lparr>an_loadingMessage := ''Polling for video result...''\<rparr>
              in case fetch (videoUrl @ ''&key='' @ js_text apiKey) of
                   Inl message \<Rightarrow> CharacterAnimator_caught message (s2, a)
                 | Inr response \<Rightarrow>
                     if \<not> resp_ok response then
                       (let errorText = resp_text response in
                        if js_includes errorText VEO_API_KEY_ERROR_MESSAGE then
                          CharacterAnimator_caught
                            (Some ''API key is invalid. Please select a valid key.'')
                            (s2\<lparr>an_apiKeyStatus := NotSelected\<rparr>, a)
                        else
                          CharacterAnimator_caught
                            (Some (''Failed to download video: '' @ resp_statusText response
                                   @ '' - '' @ errorText))
                            (s2, a))
                     else
                       (s2\<lparr>an_resultUrl := Some (resp_blobUrl response), an_isLoading := False\<rparr>,
                        handleCreationComplete
                          \<lparr>li_type = ''Character Animation'', li_imageUrl = originalUrl,
                           li_originalUrl = None, li_videoUrl = Some (resp_blobUrl response)\<rparr> a)))"

definition CharacterAnimator_handleStartOver :: "character_animator \<Rightarrow> character_animator" where
  "CharacterAnimator_handleStartOver s =
     s\<lparr>an_isLoading := False, an_error := None, an_resultUrl := None,
       an_originalCharacterUrl := None\<rparr>"

text \<open>
  \<open>renderContent\<close>, with what \<open>CharacterAnimatorInput\<close> shows for each key status: the
  form only with a selected key, the key selection prompt without one.
\<close>

datatype an_view =
    AN_Loading string
  | AN_Error string
  | AN_Result string
  | AN_CheckingKey
  | AN_KeyRequired
  | AN_Form

definition CharacterAnimator_renderContent :: "character_animator \<Rightarrow> an_view" where
  "CharacterAnimator_renderContent s =
     (if an_isLoading s then AN_Loading (an_loadingMessage s)
      else if truthy (an_error s) then AN_Error (the (an_error s))
      else if truthy (an_resultUrl s) then AN_Result (the (an_resultUrl s))
      else if an_apiKeyStatus s = Checking then AN_CheckingKey
      else if an_apiKeyStatus s = NotSelected then AN_KeyRequired
      else AN_Form)"

section \<open>The history invariant\<close>

text \<open>
  The invariant of the specification for a history and its cursor:
  \<open>-1 \<le> cursor < length items\<close>, \<open>0 \<le> cursor\<close> whenever \<open>items\<close> is not empty, and
  \<open>cursor = -1\<close> exactly when \<open>items\<close> is empty.
\<close>

definition history_invariant :: "'a list \<Rightarrow> int \<Rightarrow> bool" where
  "history_invariant items cursor =
     (- 1 \<le> cursor \<and> cursor < int (length items)
      \<and> (items = [] \<or> 0 \<le> cursor) \<and> ((cursor = - 1) = (items = [])))"

text \<open>Its part about non-empty histories only: the cursor is an index of \<open>items\<close>.\<close>

definition nonempty_history_invariant :: "'a list \<Rightarrow> int \<Rightarrow> bool" where
  "nonempty_history_invariant items cursor =
     (items = [] \<or> (0 \<le> cursor \<and> cursor < int (length items)))"

definition fs_inv :: "face_swap \<Rightarrow> bool" where
  "fs_inv s = history_invariant (fs_editHistory s) (fs_editHistoryIndex s)"

definition br_inv :: "background_remover \<Rightarrow> bool" where
  "br_inv s = history_invariant (br_editHistory s) (br_editHistoryIndex s)"

definition ca_inv :: "creative_assistant \<Rightarrow> bool" where
  "ca_inv s = nonempty_history_invariant (ca_imageHistory s) (ca_currentHistoryIndex s)"

section \<open>Stub services for the examples\<close>

text \<open>A status service that answers every query with the same operation.\<close>

definition getVideosOperation_always :: "operation \<Rightarrow> nat \<Rightarrow> thrown + operation" where
  "getVideosOperation_always operation n = Inr operation"

text \<open>A status service whose first \<open>k\<close> answers are \<open>pending\<close> and whose later answers are \<open>final\<close>.\<close>

definition getVideosOperation_after :: "nat \<Rightarrow> operation \<Rightarrow> operation \<Rightarrow> nat \<Rightarrow> thrown + operation" where
  "getVideosOperation_after k pending final n = (if n < k then Inr pending else Inr final)"

text \<open>An image service that accepts one request, answers it with \<open>response\<close> and rejects any other.\<close>

definition backend_expecting :: "part list \<Rightarrow> part list \<Rightarrow> part list \<Rightarrow> thrown + part list" where
  "backend_expecting request response parts =
     (if parts = request then Inr response else Inl (Some ''unexpected request''))"

section \<open>Saved images and library entries\<close>

text \<open>
  The library entries of CreativeAssistant have pairwise different image URLs, all of
  them recorded in \<open>savedImageUrls\<close>.
\<close>

definition ca_saved_inv :: "creative_assistant \<times> app \<Rightarrow> bool" where
  "ca_saved_inv sa =
     (distinct (map li_imageUrl (libraryCreations (snd sa)))
      \<and> set (map li_imageUrl (libraryCreations (snd sa))) \<subseteq> set (ca_savedImageUrls (fst sa)))"

section \<open>The invariant of a content generation in flight\<close>

text \<open>
  The condition under which \<open>handleGenerateContent\<close> starts the lyrics stream, and what
  holds of every configuration an invocation started in state \<open>s\<close> can reach: the
  handler still reads the state it closed over; no task has started while the image is
  awaited; once the text task has started, the lyrics task has started exactly when
  lyrics are wanted; and the stage has changed only to \<open>iterate\<close>, with every started task
  fulfilled.
\<close>

definition lyrics_wanted :: "creative_assistant \<Rightarrow> bool" where
  "lyrics_wanted s = (ca_generateLyricsFlag s \<and> cc_genre (ca_controls s) \<noteq> ''None'')"

definition content_inv :: "creative_assistant \<Rightarrow> content_run \<times> creative_assistant \<Rightarrow> bool" where
  "content_inv s c =
     (cr_closure (fst c) = s
      \<and> (cr_phase (fst c) = AwaitImage \<or> cr_text (fst c) \<noteq> NotStarted
           \<or> (cr_phase (fst c) = Settled \<and> cr_lyrics (fst c) = NotStarted))
      \<and> (cr_phase (fst c) \<noteq> AwaitImage \<or> (cr_text (fst c) = NotStarted \<and> cr_lyrics (fst c) = NotStarted))
      \<and> (cr_text (fst c) = NotStarted \<or> (cr_lyrics (fst c) \<noteq> NotStarted) = lyrics_wanted s)
      \<and> (ca_stage (snd c) = ca_stage s
           \<or> (ca_stage (snd c) = CA_iterate \<and> cr_phase (fst c) = Settled
               \<and> cr_text (fst c) = Fulfilled
               \<and> (cr_lyrics (fst c) = Fulfilled \<or> cr_lyrics (fst c) = NotStarted))))"

text \<open>
  The state of the concurrent scenario: CreativeAssistant in the content stage with the
  lyrics flag set and the genre \<open>Rock\<close>.
\<close>

definition rock_lyrics_state :: creative_assistant where
  "rock_lyrics_state =
     CreativeAssistant_init
       \<lparr>ca_generateLyricsFlag := True,
        ca_controls := (ca_controls CreativeAssistant_init)\<lparr>cc_genre := ''Rock''\<rparr>,
        ca_stage := CA_content\<rparr>"

section \<open>Properties\<close>

subsection \<open>Helper facts\<close>

lemma js_slice0_take: "- 1 \<le> i \<Longrightarrow> js_slice0 xs (i + 1) = take (nat (i + 1)) xs"
  by (simp add: js_slice0_def)

text \<open>
  The blank test on ASCII and on multi-byte white space (a no-break space, a byte order
  mark, a line separator, an ideographic space), and on text that is not white space
  (a zero width space and a next line character among it).
\<close>

lemma js_blank_examples:
  "js_blank [] \<and> js_blank '' '' \<and> js_blank [CHR 0x09, CHR 0x0A, CHR 0x20]
   \<and> js_blank [CHR 0xC2, CHR 0xA0] \<and> js_blank [CHR 0x20, CHR 0xEF, CHR 0xBB, CHR 0xBF]
   \<and> js_blank [CHR 0xE2, CHR 0x80, CHR 0xA8, CHR 0xE3, CHR 0x80, CHR 0x80]
   \<and> \<not> js_blank ''beach'' \<and> \<not> js_blank '' a '' \<and> \<not> js_blank [CHR 0xC2, CHR 0xA0, CHR ''x'']
   \<and> \<not> js_blank [CHR 0xE2, CHR 0x80, CHR 0x8B] \<and> \<not> js_blank [CHR 0xC2, CHR 0x85]"
  by code_simp

subsection \<open>C1: appending to the history\<close>

text \<open>
  Claim C1, as the code has it. In FaceSwap and BackgroundRemover \<open>handleEditComplete\<close>
  keeps the entries up to the cursor, drops the rest, appends the new image and moves the
  cursor to the new last index. In CreativeAssistant \<open>handleEditComplete\<close> appends after
  all existing entries, whatever the cursor, and moves the cursor to the new last index:
  nothing is dropped there.
\<close>

theorem C1_append_truncates_to_cursor:
  "(- 1 \<le> fs_editHistoryIndex fs \<longrightarrow>
      fs_editHistory (FaceSwap_handleEditComplete a fs)
        = take (nat (fs_editHistoryIndex fs + 1)) (fs_editHistory fs) @ [a]
      \<and> fs_editHistoryIndex (FaceSwap_handleEditComplete a fs)
        = int (length (fs_editHistory (FaceSwap_handleEditComplete a fs))) - 1)
   \<and> (- 1 \<le> br_editHistoryIndex br \<longrightarrow>
      br_editHistory (BackgroundRemover_handleEditComplete a br)
        = take (nat (br_editHistoryIndex br + 1)) (br_editHistory br) @ [a]
      \<and> br_editHistoryIndex (BackgroundRemover_handleEditComplete a br)
        = int (length (br_editHistory (BackgroundRemover_handleEditComplete a br))) - 1)
   \<and> ca_imageHistory (CreativeAssistant_handleEditComplete a ca) = ca_imageHistory ca @ [a]
   \<and> ca_currentHistoryIndex (CreativeAssistant_handleEditComplete a ca)
        = int (length (ca_imageHistory (CreativeAssistant_handleEditComplete a ca))) - 1"
  by (simp add: FaceSwap_handleEditComplete_def BackgroundRemover_handleEditComplete_def
      CreativeAssistant_handleEditComplete_def Let_def js_slice0_take)

text \<open>
  The scenario of the claim in FaceSwap and BackgroundRemover: from \<open>[A, B, C]\<close> with the
  cursor at 2, two undos give cursor 0 and current entry \<open>A\<close>; appending \<open>D\<close> then gives
  \<open>[A, D]\<close> with the cursor at 1.
\<close>

theorem C1_append_truncates_witness:
  "fs_editHistoryIndex (FaceSwap_handleUndo (FaceSwap_handleUndo
       (FaceSwap_init\<lparr>fs_editHistory := [''A'', ''B'', ''C''], fs_editHistoryIndex := 2\<rparr>))) = 0
   \<and> FaceSwap_result (FaceSwap_handleUndo (FaceSwap_handleUndo
       (FaceSwap_init\<lparr>fs_editHistory := [''A'', ''B'', ''C''], fs_editHistoryIndex := 2\<rparr>))) = Some ''A''
   \<and> fs_editHistory (FaceSwap_handleEditComplete ''D'' (FaceSwap_handleUndo (FaceSwap_handleUndo
       (FaceSwap_init\<lparr>fs_editHistory := [''A'', ''B'', ''C''], fs_editHistoryIndex := 2\<rparr>))))
       = [''A'', ''D'']
   \<and> fs_editHistoryIndex (FaceSwap_handleEditComplete ''D'' (FaceSwap_handleUndo (FaceSwap_handleUndo
       (FaceSwap_init\<lparr>fs_editHistory := [''A'', ''B'', ''C''], fs_editHistoryIndex := 2\<rparr>)))) = 1
   \<and> br_editHistory (BackgroundRemover_handleEditComplete ''D'' (BackgroundRemover_handleUndo
       (BackgroundRemover_handleUndo
       (BackgroundRemover_init\<lparr>br_editHistory := [''A'', ''B'', ''C''], br_editHistoryIndex := 2\<rparr>))))
       = [''A'', ''D'']
   \<and> br_editHistoryIndex (BackgroundRemover_handleEditComplete ''D'' (BackgroundRemover_handleUndo
       (BackgroundRemover_handleUndo
       (BackgroundRemover_init\<lparr>br_editHistory := [''A'', ''B'', ''C''], br_editHistoryIndex := 2\<rparr>)))) = 1"
  using C1_append_truncates_to_cursor
    [of "FaceSwap_handleUndo (FaceSwap_handleUndo
       (FaceSwap_init\<lparr>fs_editHistory := [''A'', ''B'', ''C''], fs_editHistoryIndex := 2\<rparr>))"
      "''D''"
      "BackgroundRemover_handleUndo (BackgroundRemover_handleUndo
       (BackgroundRemover_init\<lparr>br_editHistory := [''A'', ''B'', ''C''], br_editHistoryIndex := 2\<rparr>))"
      CreativeAssistant_init]
  by (simp add: FaceSwap_handleUndo_def FaceSwap_canUndo_def FaceSwap_init_def FaceSwap_result_def
      js_at_def BackgroundRemover_handleUndo_def BackgroundRemover_canUndo_def
      BackgroundRemover_init_def)

text \<open>
  The same scenario in CreativeAssistant, where going back is selecting an earlier
  thumbnail: with \<open>[A, B, C]\<close> and the first entry selected, the edit \<open>D\<close> gives
  \<open>[A, B, C, D]\<close> with the cursor at 3, not \<open>[A, D]\<close> with the cursor at 1.
\<close>

theorem C1_creative_assistant_counterexample:
  "ca_currentHistoryIndex (CreativeAssistant_selectThumbnail 0
       (CreativeAssistant_init\<lparr>ca_imageHistory := [''A'', ''B'', ''C''], ca_currentHistoryIndex := 2\<rparr>)) = 0
   \<and> ca_imageHistory (CreativeAssistant_handleEditComplete ''D'' (CreativeAssistant_selectThumbnail 0
       (CreativeAssistant_init\<lparr>ca_imageHistory := [''A'', ''B'', ''C''], ca_currentHistoryIndex := 2\<rparr>)))
       = [''A'', ''B'', ''C'', ''D'']
   \<and> ca_imageHistory (CreativeAssistant_handleEditComplete ''D'' (CreativeAssistant_selectThumbnail 0
       (CreativeAssistant_init\<lparr>ca_imageHistory := [''A'', ''B'', ''C''], ca_currentHistoryIndex := 2\<rparr>)))
       \<noteq> [''A'', ''D'']
   \<and> ca_currentHistoryIndex (CreativeAssistant_handleEditComplete ''D'' (CreativeAssistant_selectThumbnail 0
       (CreativeAssistant_init\<lparr>ca_imageHistory := [''A'', ''B'', ''C''], ca_currentHistoryIndex := 2\<rparr>)))
       = 3"
  by (simp add: CreativeAssistant_handleEditComplete_def CreativeAssistant_selectThumbnail_def
      CreativeAssistant_init_def)

subsection \<open>C2: the cursor stays inside the history\<close>

lemma history_invariant_append:
  "- 1 \<le> i \<Longrightarrow> history_invariant (js_slice0 xs (i + 1) @ [a]) (int (length (js_slice0 xs (i + 1) @ [a])) - 1)"
  by (simp add: history_invariant_def)

lemma FaceSwap_step_inv: "fs_inv (fst sa) \<Longrightarrow> fs_inv (fst (FaceSwap_step sa e))"
proof (cases sa)
  case (Pair s a)
  assume inv: "fs_inv (fst sa)"
  with Pair have i: "history_invariant (fs_editHistory s) (fs_editHistoryIndex s)"
    by (simp add: fs_inv_def)
  show ?thesis
  proof (cases e)
    case (FS_GenerateBegin x)
    then show ?thesis using Pair
      by (simp add: fs_inv_def FaceSwap_generate_begin_def history_invariant_def)
  next
    case (FS_GenerateEnd outcome)
    then show ?thesis using Pair i
      by (cases outcome) (simp_all add: fs_inv_def FaceSwap_generate_end_def history_invariant_def)
  next
    case FS_Save
    then show ?thesis using Pair i
      by (simp add: fs_inv_def FaceSwap_handleSave_def Let_def)
  next
    case FS_OpenEditor
    then show ?thesis using Pair i by (simp add: fs_inv_def)
  next
    case FS_CloseEditor
    then show ?thesis using Pair i by (simp add: fs_inv_def)
  next
    case (FS_EditComplete u)
    from i have "- 1 \<le> fs_editHistoryIndex s" by (simp add: history_invariant_def)
    then show ?thesis using Pair FS_EditComplete
      by (simp add: fs_inv_def FaceSwap_handleEditComplete_def Let_def history_invariant_append
          del: length_append)
  next
    case FS_Undo
    then show ?thesis using Pair i
      by (auto simp add: fs_inv_def FaceSwap_handleUndo_def FaceSwap_canUndo_def history_invariant_def)
  next
    case FS_Redo
    then show ?thesis using Pair i
      by (auto simp add: fs_inv_def FaceSwap_handleRedo_def FaceSwap_canRedo_def history_invariant_def)
  next
    case FS_StartOver
    then show ?thesis using Pair
      by (simp add: fs_inv_def FaceSwap_handleStartOver_def history_invariant_def)
  qed
qed

lemma FaceSwap_run_inv: "fs_inv (fst sa) \<Longrightarrow> fs_inv (fst (FaceSwap_run es sa))"
  unfolding FaceSwap_run_def
  by (induction es arbitrary: sa) (simp_all add: FaceSwap_step_inv)


lemma BackgroundRemover_background_end_inv:
  "br_inv s \<Longrightarrow> br_inv (BackgroundRemover_background_end d outcome s)"
  by (cases outcome) (simp_all add: br_inv_def BackgroundRemover_background_end_def history_invariant_def)

lemma BackgroundRemover_step_inv: "br_inv (fst sa) \<Longrightarrow> br_inv (fst (BackgroundRemover_step sa e))"
proof (cases sa)
  case (Pair s a)
  assume inv: "br_inv (fst sa)"
  with Pair have b: "br_inv s" by simp
  then have i: "history_invariant (br_editHistory s) (br_editHistoryIndex s)"
    by (simp add: br_inv_def)
  show ?thesis
  proof (cases e)
    case (BR_InitialRemoval img outcome)
    then show ?thesis using Pair
      by (cases outcome)
        (simp_all add: br_inv_def BackgroundRemover_handleInitialRemoval_def
          BackgroundRemover_removal_begin_def BackgroundRemover_removal_end_def history_invariant_def)
  next
    case (BR_SetBackgroundPrompt p)
    then show ?thesis using Pair i by (simp add: br_inv_def)
  next
    case (BR_GenerateBackground outcome)
    have "br_inv (s\<lparr>br_isLoading := True, br_error := None\<rparr>)"
      using b by (simp add: br_inv_def)
    then show ?thesis using Pair b BR_GenerateBackground
      by (simp add: BackgroundRemover_handleGenerateBackground_def BackgroundRemover_background_end_inv)
  next
    case (BR_UploadBackground chosen outcome)
    have "br_inv (s\<lparr>br_isLoading := True, br_error := None\<rparr>)"
      using b by (simp add: br_inv_def)
    then show ?thesis using Pair b BR_UploadBackground
      by (simp add: BackgroundRemover_handleUploadBackground_def BackgroundRemover_background_end_inv
          split: option.splits)
  next
    case (BR_GreenScreen outcome)
    have "br_inv (s\<lparr>br_isLoading := True\<rparr>)"
      using b by (simp add: br_inv_def)
    then show ?thesis using Pair b BR_GreenScreen
      by (simp add: BackgroundRemover_handleGreenScreen_def BackgroundRemover_background_end_inv)
  next
    case BR_Save
    then show ?thesis using Pair i
      by (simp add: br_inv_def BackgroundRemover_handleSave_def Let_def)
  next
    case BR_SaveCutout
    then show ?thesis using Pair i
      by (simp add: br_inv_def BackgroundRemover_handleSaveCutout_def Let_def)
  next
    case BR_OpenEditor
    then show ?thesis using Pair i by (simp add: br_inv_def)
  next
    case BR_CloseEditor
    then show ?thesis using Pair i by (simp add: br_inv_def)
  next
    case (BR_EditComplete u)
    from i have "- 1 \<le> br_editHistoryIndex s" by (simp add: history_invariant_def)
    then show ?thesis using Pair BR_EditComplete
      by (simp add: br_inv_def BackgroundRemover_handleEditComplete_def Let_def
          history_invariant_append del: length_append)
  next
    case BR_Undo
    then show ?thesis using Pair i
      by (auto simp add: br_inv_def BackgroundRemover_handleUndo_def BackgroundRemover_canUndo_def
          history_invariant_def)
  next
    case BR_Redo
    then show ?thesis using Pair i
      by (auto simp add: br_inv_def BackgroundRemover_handleRedo_def BackgroundRemover_canRedo_def
          history_invariant_def)
  next
    case BR_StartOver
    then show ?thesis using Pair
      by (simp add: br_inv_def BackgroundRemover_handleStartOver_def history_invariant_def)
  next
    case BR_TryAgain
    then show ?thesis using Pair i by (simp add: br_inv_def BackgroundRemover_tryAgain_def)
  qed
qed

lemma BackgroundRemover_run_inv: "br_inv (fst sa) \<Longrightarrow> br_inv (fst (BackgroundRemover_run es sa))"
  unfolding BackgroundRemover_run_def
  by (induction es arbitrary: sa) (simp_all add: BackgroundRemover_step_inv)

lemma content_fail_inv: "ca_inv (snd c) \<Longrightarrow> ca_inv (snd (content_fail m c))"
  by (simp add: content_fail_def ca_inv_def)

lemma content_join_inv: "ca_inv (snd c) \<Longrightarrow> ca_inv (snd (content_join c))"
  by (simp add: content_join_def ca_inv_def Let_def)

lemma content_step_inv:
  "content_step c e = Some c' \<Longrightarrow> ca_inv (snd c) \<Longrightarrow> ca_inv (snd c')"
proof (cases c)
  case (Pair r s)
  assume st: "content_step c e = Some c'" and inv: "ca_inv (snd c)"
  from inv Pair have s: "ca_inv s" by simp
  show ?thesis
  proof (cases e)
    case (ImageSettled outcome)
    then show ?thesis using st Pair s
      by (cases outcome)
        (auto simp add: content_fail_def ca_inv_def nonempty_history_invariant_def split: if_splits)
  next
    case (TextChunk x)
    then show ?thesis using st Pair s by (auto simp add: ca_inv_def split: if_splits)
  next
    case TextDone
    then show ?thesis using st Pair s content_join_inv [of "(r\<lparr>cr_text := Fulfilled\<rparr>, s)"]
      by (auto split: if_splits)
  next
    case (TextThrew m)
    then show ?thesis using st Pair s content_fail_inv [of "(r\<lparr>cr_text := Rejected\<rparr>, s)" m]
      by (auto split: if_splits)
  next
    case (LyricsChunk x)
    then show ?thesis using st Pair s by (auto simp add: ca_inv_def split: if_splits)
  next
    case LyricsDone
    then show ?thesis using st Pair s content_join_inv [of "(r\<lparr>cr_lyrics := Fulfilled\<rparr>, s)"]
      by (auto split: if_splits)
  next
    case (LyricsThrew m)
    then show ?thesis using st Pair s content_fail_inv [of "(r\<lparr>cr_lyrics := Rejected\<rparr>, s)" m]
      by (auto split: if_splits)
  qed
qed

lemma content_exec_inv:
  "content_exec c es = Some c' \<Longrightarrow> ca_inv (snd c) \<Longrightarrow> ca_inv (snd c')"
proof (induction es arbitrary: c)
  case Nil
  then show ?case by simp
next
  case (Cons e es)
  then show ?case by (auto split: option.splits dest: content_step_inv)
qed

lemma content_begin_inv: "ca_inv s \<Longrightarrow> ca_inv (snd (content_begin p s))"
  by (simp add: content_begin_def ca_inv_def)

lemma CreativeAssistant_step_inv: "ca_inv (fst sa) \<Longrightarrow> ca_inv (fst (CreativeAssistant_step sa e))"
proof (cases sa)
  case (Pair s a)
  assume inv: "ca_inv (fst sa)"
  with Pair have b: "ca_inv s" by simp
  then have i: "nonempty_history_invariant (ca_imageHistory s) (ca_currentHistoryIndex s)"
    by (simp add: ca_inv_def)
  show ?thesis
  proof (cases e)
    case (CA_GeneratePrompt outcome t src assets ctl)
    then show ?thesis using Pair i
      by (cases outcome) (simp_all add: ca_inv_def CreativeAssistant_handleGeneratePrompt_def Let_def)
  next
    case (CA_SetGenerateLyricsFlag x)
    then show ?thesis using Pair i by (simp add: ca_inv_def)
  next
    case (CA_GenerateContent p es)
    then show ?thesis using Pair b content_exec_inv [OF _ content_begin_inv [OF b], of p es]
      by (auto split: option.splits)
  next
    case CA_IterateBegin
    then show ?thesis using Pair i by (simp add: ca_inv_def)
  next
    case (CA_IterateEnd h outcome)
    then show ?thesis using Pair i
      by (cases outcome)
        (simp_all add: ca_inv_def CreativeAssistant_iterate_end_def Let_def
          nonempty_history_invariant_def)
  next
    case (CA_SelectThumbnail n)
    then show ?thesis using Pair i
      by (simp add: ca_inv_def CreativeAssistant_selectThumbnail_def nonempty_history_invariant_def)
  next
    case CA_GoToLatest
    then show ?thesis using Pair i
      by (auto simp add: ca_inv_def CreativeAssistant_goToLatest_def nonempty_history_invariant_def)
  next
    case CA_OpenEditor
    then show ?thesis using Pair i by (simp add: ca_inv_def)
  next
    case CA_CloseEditor
    then show ?thesis using Pair i by (simp add: ca_inv_def)
  next
    case (CA_EditComplete u)
    then show ?thesis using Pair i
      by (simp add: ca_inv_def CreativeAssistant_handleEditComplete_def Let_def
          nonempty_history_invariant_def)
  next
    case CA_Save
    then show ?thesis using Pair i
      by (simp add: ca_inv_def CreativeAssistant_handleSaveToLibrary_def Let_def)
  next
    case CA_StartOver
    then show ?thesis using Pair
      by (simp add: ca_inv_def CreativeAssistant_handleStartOver_def nonempty_history_invariant_def)
  qed
qed

lemma CreativeAssistant_run_inv: "ca_inv (fst sa) \<Longrightarrow> ca_inv (fst (CreativeAssistant_run es sa))"
  unfolding CreativeAssistant_run_def
  by (induction es arbitrary: sa) (simp_all add: CreativeAssistant_step_inv)

text \<open>
  Claim C2, as the code has it. After any sequence of events from the initial state
  (generation, edits, undo, redo, saving, start over), the history of FaceSwap and the
  history of BackgroundRemover satisfy the invariant: \<open>-1 \<le> cursor < length items\<close>,
  \<open>0 \<le> cursor\<close> when \<open>items\<close> is not empty, \<open>cursor = -1\<close> exactly when it is empty. In
  CreativeAssistant the cursor of a non-empty history is an index of it after any
  sequence of events, and the empty history of the initial state and of the state after
  \<open>Start Over\<close> has the cursor 0: that component has no \<open>-1\<close> sentinel.
\<close>

theorem C2_history_cursor_invariant:
  "history_invariant (fs_editHistory (fst (FaceSwap_run fs_events (FaceSwap_init, a))))
      (fs_editHistoryIndex (fst (FaceSwap_run fs_events (FaceSwap_init, a))))
   \<and> history_invariant (br_editHistory (fst (BackgroundRemover_run br_events (BackgroundRemover_init, a))))
      (br_editHistoryIndex (fst (BackgroundRemover_run br_events (BackgroundRemover_init, a))))
   \<and> nonempty_history_invariant
      (ca_imageHistory (fst (CreativeAssistant_run ca_events (CreativeAssistant_init, a))))
      (ca_currentHistoryIndex (fst (CreativeAssistant_run ca_events (CreativeAssistant_init, a))))
   \<and> ca_imageHistory CreativeAssistant_init = [] \<and> ca_currentHistoryIndex CreativeAssistant_init = 0
   \<and> ca_imageHistory (CreativeAssistant_handleStartOver ca) = []
   \<and> ca_currentHistoryIndex (CreativeAssistant_handleStartOver ca) = 0"
proof -
  have "fs_inv (fst (FaceSwap_init, a))"
    by (simp add: fs_inv_def FaceSwap_init_def history_invariant_def)
  then have f: "fs_inv (fst (FaceSwap_run fs_events (FaceSwap_init, a)))"
    by (rule FaceSwap_run_inv)
  have "br_inv (fst (BackgroundRemover_init, a))"
    by (simp add: br_inv_def BackgroundRemover_init_def history_invariant_def)
  then have b: "br_inv (fst (BackgroundRemover_run br_events (BackgroundRemover_init, a)))"
    by (rule BackgroundRemover_run_inv)
  have "ca_inv (fst (CreativeAssistant_init, a))"
    by (simp add: ca_inv_def CreativeAssistant_init_def nonempty_history_invariant_def)
  then have c: "ca_inv (fst (CreativeAssistant_run ca_events (CreativeAssistant_init, a)))"
    by (rule CreativeAssistant_run_inv)
  show ?thesis using f b c
    by (simp add: fs_inv_def br_inv_def ca_inv_def CreativeAssistant_init_def
        CreativeAssistant_handleStartOver_def)
qed

text \<open>
  Three runs: FaceSwap generates \<open>X\<close>, edits to \<open>Y\<close> and undoes; BackgroundRemover removes
  a background, applies the green screen, edits and starts over; CreativeAssistant
  generates \<open>U1\<close>, iterates to \<open>U2\<close> and selects the first thumbnail.
\<close>

theorem C2_history_cursor_witness:
  "fs_editHistory (fst (FaceSwap_run
       [FS_GenerateBegin \<lparr>img_data = Some ''QQ'', img_type = ''image/png''\<rparr>,
        FS_GenerateEnd (Inr ''X''), FS_EditComplete ''Y'', FS_Undo]
       (FaceSwap_init, \<lparr>libraryCreations = [], toasts = []\<rparr>))) = [''X'', ''Y'']
   \<and> fs_editHistoryIndex (fst (FaceSwap_run
       [FS_GenerateBegin \<lparr>img_data = Some ''QQ'', img_type = ''image/png''\<rparr>,
        FS_GenerateEnd (Inr ''X''), FS_EditComplete ''Y'', FS_Undo]
       (FaceSwap_init, \<lparr>libraryCreations = [], toasts = []\<rparr>))) = 0
   \<and> history_invariant [''X'', ''Y''] 0
   \<and> br_editHistory (fst (BackgroundRemover_run
       [BR_InitialRemoval \<lparr>img_data = Some ''QQ'', img_type = ''image/png''\<rparr> (Inr ''data:image/png;base64,FG''),
        BR_GreenScreen (Inr ''G''), BR_EditComplete ''H'', BR_StartOver]
       (BackgroundRemover_init, \<lparr>libraryCreations = [], toasts = []\<rparr>))) = []
   \<and> br_editHistoryIndex (fst (BackgroundRemover_run
       [BR_InitialRemoval \<lparr>img_data = Some ''QQ'', img_type = ''image/png''\<rparr> (Inr ''data:image/png;base64,FG''),
        BR_GreenScreen (Inr ''G''), BR_EditComplete ''H'', BR_StartOver]
       (BackgroundRemover_init, \<lparr>libraryCreations = [], toasts = []\<rparr>))) = - 1
   \<and> history_invariant ([] :: string list) (- 1)
   \<and> ca_imageHistory (fst (CreativeAssistant_run
       [CA_GenerateContent ''p'' [ImageSettled (Inr ''U1''), TextDone],
        CA_IterateBegin, CA_IterateEnd [''U1''] (Inr ''U2''), CA_SelectThumbnail 0]
       (CreativeAssistant_init, \<lparr>libraryCreations = [], toasts = []\<rparr>))) = [''U1'', ''U2'']
   \<and> ca_currentHistoryIndex (fst (CreativeAssistant_run
       [CA_GenerateContent ''p'' [ImageSettled (Inr ''U1''), TextDone],
        CA_IterateBegin, CA_IterateEnd [''U1''] (Inr ''U2''), CA_SelectThumbnail 0]
       (CreativeAssistant_init, \<lparr>libraryCreations = [], toasts = []\<rparr>))) = 0
   \<and> nonempty_history_invariant [''U1'', ''U2''] 0"
  using C2_history_cursor_invariant
    [of "[FS_GenerateBegin \<lparr>img_data = Some ''QQ'', img_type = ''image/png''\<rparr>,
          FS_GenerateEnd (Inr ''X''), FS_EditComplete ''Y'', FS_Undo]"
        "\<lparr>libraryCreations = [], toasts = []\<rparr>"
        "[BR_InitialRemoval \<lparr>img_data = Some ''QQ'', img_type = ''image/png''\<rparr> (Inr ''data:image/png;base64,FG''),
          BR_GreenScreen (Inr ''G''), BR_EditComplete ''H'', BR_StartOver]"
        "[CA_GenerateContent ''p'' [ImageSettled (Inr ''U1''), TextDone],
          CA_IterateBegin, CA_IterateEnd [''U1''] (Inr ''U2''), CA_SelectThumbnail 0]"
        CreativeAssistant_init]
  by (simp add: FaceSwap_run_def FaceSwap_init_def FaceSwap_generate_begin_def
      FaceSwap_generate_end_def FaceSwap_handleEditComplete_def FaceSwap_handleUndo_def
      FaceSwap_canUndo_def js_slice0_def Let_def
      BackgroundRemover_run_def BackgroundRemover_init_def BackgroundRemover_handleInitialRemoval_def
      BackgroundRemover_removal_begin_def BackgroundRemover_removal_end_def
      BackgroundRemover_handleGreenScreen_def BackgroundRemover_background_end_def
      BackgroundRemover_handleEditComplete_def BackgroundRemover_handleStartOver_def truthy_def
      CreativeAssistant_run_def CreativeAssistant_init_def content_begin_def content_join_def
      CreativeAssistant_iterate_end_def CreativeAssistant_selectThumbnail_def
      history_invariant_def nonempty_history_invariant_def)

text \<open>
  The initial state of CreativeAssistant and its state after \<open>Start Over\<close> have an empty
  history with the cursor 0, which is not below the length and is not \<open>-1\<close>.
\<close>

theorem C2_creative_assistant_counterexample:
  "\<not> history_invariant (ca_imageHistory CreativeAssistant_init)
        (ca_currentHistoryIndex CreativeAssistant_init)
   \<and> \<not> history_invariant (ca_imageHistory (CreativeAssistant_handleStartOver CreativeAssistant_init))
        (ca_currentHistoryIndex (CreativeAssistant_handleStartOver CreativeAssistant_init))
   \<and> ca_currentHistoryIndex (CreativeAssistant_handleStartOver CreativeAssistant_init) \<noteq> - 1"
  by (simp add: history_invariant_def CreativeAssistant_init_def CreativeAssistant_handleStartOver_def)

subsection \<open>C3: a failed download of the video\<close>

text \<open>\<open>includes\<close> is the substring test, and a non-empty thrown message is kept as it is.\<close>

lemma take_length_eq_iff: "(take (length t) s = t) = (\<exists>q. s = t @ q)"
  by (metis append_eq_conv_conj append_take_drop_id)

lemma js_includes_iff: "js_includes s t = (\<exists>p q. s = p @ t @ q)"
proof (induction s)
  case Nil
  then show ?case by simp
next
  case (Cons c cs)
  show ?case
  proof
    assume "js_includes (c # cs) t"
    then consider "take (length t) (c # cs) = t" | "js_includes cs t" by auto
    then show "\<exists>p q. c # cs = p @ t @ q"
    proof cases
      case 1
      then obtain q where "c # cs = t @ q" using take_length_eq_iff by blast
      then have "c # cs = [] @ t @ q" by simp
      then show ?thesis by blast
    next
      case 2
      with Cons obtain p q where "cs = p @ t @ q" by blast
      then have "c # cs = (c # p) @ t @ q" by simp
      then show ?thesis by blast
    qed
  next
    assume "\<exists>p q. c # cs = p @ t @ q"
    then obtain p q where pq: "c # cs = p @ t @ q" by blast
    show "js_includes (c # cs) t"
    proof (cases p)
      case Nil
      with pq have "take (length t) (c # cs) = t" using take_length_eq_iff by auto
      then show ?thesis by simp
    next
      case (Cons d p')
      with pq have "cs = p' @ t @ q" by simp
      with Cons.IH have "js_includes cs t" by blast
      then show ?thesis by simp
    qed
  qed
qed

lemma or_default_Some: "m \<noteq> [] \<Longrightarrow> or_default (Some m) d = m"
  by (simp add: or_default_def truthy_def)

text \<open>
  Claim C3. When \<open>animateCharacter\<close> has returned a link and the download answers with a
  response that is not ok: if the body contains \<open>Requested entity was not found.\<close> the key
  status becomes \<open>not-selected\<close>, the error is the invalid key message, the error panel
  shows it and after \<open>Try Again\<close> the key selection prompt is shown; otherwise the key
  status is unchanged and the error is the download failure with the status text and the
  body. In both cases there is no result, loading has ended and the library is unchanged.
\<close>

theorem C3_download_failure_classification:
  assumes "animate characterImage motion = Inr videoUrl"
    and "fetch (videoUrl @ ''&key='' @ js_text apiKey) = Inr response"
    and "\<not> resp_ok response"
  shows "(js_includes (resp_text response) VEO_API_KEY_ERROR_MESSAGE \<longrightarrow>
            an_apiKeyStatus (fst (CharacterAnimator_handleAnimate animate fetch apiKey characterImage motion (s, a)))
              = NotSelected
          \<and> an_error (fst (CharacterAnimator_handleAnimate animate fetch apiKey characterImage motion (s, a)))
              = Some ''API key is invalid. Please select a valid key.''
          \<and> CharacterAnimator_renderContent
               (fst (CharacterAnimator_handleAnimate animate fetch apiKey characterImage motion (s, a)))
              = AN_Error ''API key is invalid. Please select a valid key.''
          \<and> CharacterAnimator_renderContent (CharacterAnimator_handleStartOver
               (fst (CharacterAnimator_handleAnimate animate fetch apiKey characterImage motion (s, a))))
              = AN_KeyRequired)
       \<and> (\<not> js_includes (resp_text response) VEO_API_KEY_ERROR_MESSAGE \<longrightarrow>
            an_apiKeyStatus (fst (CharacterAnimator_handleAnimate animate fetch apiKey characterImage motion (s, a)))
              = an_apiKeyStatus s
          \<and> an_error (fst (CharacterAnimator_handleAnimate animate fetch apiKey characterImage motion (s, a)))
              = Some (''Failed to download video: '' @ resp_statusText response @ '' - ''
                      @ resp_text response)
          \<and> CharacterAnimator_renderContent
               (fst (CharacterAnimator_handleAnimate animate fetch apiKey characterImage motion (s, a)))
              = AN_Error (''Failed to download video: '' @ resp_statusText response @ '' - ''
                      @ resp_text response))
       \<and> an_resultUrl (fst (CharacterAnimator_handleAnimate animate fetch apiKey characterImage motion (s, a)))
              = None
       \<and> \<not> an_isLoading (fst (CharacterAnimator_handleAnimate animate fetch apiKey characterImage motion (s, a)))
       \<and> snd (CharacterAnimator_handleAnimate animate fetch apiKey characterImage motion (s, a)) = a"
  using assms
  by (simp add: CharacterAnimator_handleAnimate_def CharacterAnimator_caught_def Let_def
      or_default_Some CharacterAnimator_renderContent_def CharacterAnimator_handleStartOver_def
      truthy_def)

text \<open>
  The scenario of the specification: the submission and the first status query report a
  pending operation, the second query a finished one with the link \<open>R\<close>; the download
  answers 404 with the signature in its body. Beside it, a 429 without the signature.
\<close>

theorem C3_download_failure_witness:
  "animateCharacter (Some ''K'') (Inr \<lparr>op_done = False, op_uri = None\<rparr>)
          (\<lambda>n. if n < 1 then Inr \<lparr>op_done = False, op_uri = None\<rparr>
                else Inr \<lparr>op_done = True, op_uri = Some ''R''\<rparr>)
        = Some ([Wait 10000, Query, Wait 10000, Query], Inr ''R'')
   \<and> js_includes ''404: Requested entity was not found. (NOT_FOUND)'' VEO_API_KEY_ERROR_MESSAGE
   \<and> an_apiKeyStatus (fst (CharacterAnimator_handleAnimate (\<lambda>_ _. Inr ''R'')
        (\<lambda>_. Inr \<lparr>resp_ok = False, resp_statusText = ''Not Found'',
                    resp_text = ''404: Requested entity was not found. (NOT_FOUND)'',
                    resp_blobUrl = []\<rparr>)
        (Some ''K'') \<lparr>img_data = Some ''QQ'', img_type = ''image/png''\<rparr> ''wave''
        (CharacterAnimator_init\<lparr>an_apiKeyStatus := Selected\<rparr>, \<lparr>libraryCreations = [], toasts = []\<rparr>)))
       = NotSelected
   \<and> an_error (fst (CharacterAnimator_handleAnimate (\<lambda>_ _. Inr ''R'')
        (\<lambda>_. Inr \<lparr>resp_ok = False, resp_statusText = ''Not Found'',
                    resp_text = ''404: Requested entity was not found. (NOT_FOUND)'',
                    resp_blobUrl = []\<rparr>)
        (Some ''K'') \<lparr>img_data = Some ''QQ'', img_type = ''image/png''\<rparr> ''wave''
        (CharacterAnimator_init\<lparr>an_apiKeyStatus := Selected\<rparr>, \<lparr>libraryCreations = [], toasts = []\<rparr>)))
       = Some ''API key is invalid. Please select a valid key.''
   \<and> \<not> js_includes ''quota exceeded'' VEO_API_KEY_ERROR_MESSAGE
   \<and> an_apiKeyStatus (fst (CharacterAnimator_handleAnimate (\<lambda>_ _. Inr ''R'')
        (\<lambda>_. Inr \<lparr>resp_ok = False, resp_statusText = ''Too Many Requests'',
                    resp_text = ''quota exceeded'', resp_blobUrl = []\<rparr>)
        (Some ''K'') \<lparr>img_data = Some ''QQ'', img_type = ''image/png''\<rparr> ''wave''
        (CharacterAnimator_init\<lparr>an_apiKeyStatus := Selected\<rparr>, \<lparr>libraryCreations = [], toasts = []\<rparr>)))
       = Selected
   \<and> an_error (fst (CharacterAnimator_handleAnimate (\<lambda>_ _. Inr ''R'')
        (\<lambda>_. Inr \<lparr>resp_ok = False, resp_statusText = ''Too Many Requests'',
                    resp_text = ''quota exceeded'', resp_blobUrl = []\<rparr>)
        (Some ''K'') \<lparr>img_data = Some ''QQ'', img_type = ''image/png''\<rparr> ''wave''
        (CharacterAnimator_init\<lparr>an_apiKeyStatus := Selected\<rparr>, \<lparr>libraryCreations = [], toasts = []\<rparr>)))
       = Some ''Failed to download video: Too Many Requests - quota exceeded''"
proof -
  have poll: "animateCharacter (Some ''K'') (Inr \<lparr>op_done = False, op_uri = None\<rparr>)
          (\<lambda>n. if n < 1 then Inr \<lparr>op_done = False, op_uri = None\<rparr>
                else Inr \<lparr>op_done = True, op_uri = Some ''R''\<rparr>)
        = Some ([Wait 10000, Query, Wait 10000, Query], Inr ''R'')"
    by (simp add: animateCharacter_def truthy_def poll_loop.simps)
  have sig: "js_includes ''404: Requested entity was not found. (NOT_FOUND)'' VEO_API_KEY_ERROR_MESSAGE"
    by code_simp
  have nosig: "\<not> js_includes ''quota exceeded'' VEO_API_KEY_ERROR_MESSAGE"
    by code_simp
  have sel: "an_apiKeyStatus (CharacterAnimator_init\<lparr>an_apiKeyStatus := Selected\<rparr>) = Selected"
    by simp
  have msg: "''Failed to download video: '' @ ''Too Many Requests'' @ '' - '' @ ''quota exceeded''
      = ''Failed to download video: Too Many Requests - quota exceeded''"
    by simp
  have rejected:
    "js_includes ''404: Requested entity was not found. (NOT_FOUND)'' VEO_API_KEY_ERROR_MESSAGE \<longrightarrow>
     an_apiKeyStatus (fst (CharacterAnimator_handleAnimate (\<lambda>_ _. Inr ''R'')
        (\<lambda>_. Inr \<lparr>resp_ok = False, resp_statusText = ''Not Found'',
                    resp_text = ''404: Requested entity was not found. (NOT_FOUND)'',
                    resp_blobUrl = []\<rparr>)
        (Some ''K'') \<lparr>img_data = Some ''QQ'', img_type = ''image/png''\<rparr> ''wave''
        (CharacterAnimator_init\<lparr>an_apiKeyStatus := Selected\<rparr>, \<lparr>libraryCreations = [], toasts = []\<rparr>)))
       = NotSelected
     \<and> an_error (fst (CharacterAnimator_handleAnimate (\<lambda>_ _. Inr ''R'')
        (\<lambda>_. Inr \<lparr>resp_ok = False, resp_statusText = ''Not Found'',
                    resp_text = ''404: Requested entity was not found. (NOT_FOUND)'',
                    resp_blobUrl = []\<rparr>)
        (Some ''K'') \<lparr>img_data = Some ''QQ'', img_type = ''image/png''\<rparr> ''wave''
        (CharacterAnimator_init\<lparr>an_apiKeyStatus := Selected\<rparr>, \<lparr>libraryCreations = [], toasts = []\<rparr>)))
       = Some ''API key is invalid. Please select a valid key.''"
    using C3_download_failure_classification
    [of "\<lambda>_ _. Inr ''R''" "\<lparr>img_data = Some ''QQ'', img_type = ''image/png''\<rparr>" "''wave''" "''R''"
        "\<lambda>_. Inr \<lparr>resp_ok = False, resp_statusText = ''Not Found'',
                    resp_text = ''404: Requested entity was not found. (NOT_FOUND)'',
                    resp_blobUrl = []\<rparr>"
        "Some ''K''"
        "\<lparr>resp_ok = False, resp_statusText = ''Not Found'',
                    resp_text = ''404: Requested entity was not found. (NOT_FOUND)'',
                    resp_blobUrl = []\<rparr>"
        "CharacterAnimator_init\<lparr>an_apiKeyStatus := Selected\<rparr>"
        "\<lparr>libraryCreations = [], toasts = []\<rparr>"]
    by (simp only: fetch_response.simps simp_thms True_implies_equals; blast)
  have generic:
    "\<not> js_includes ''quota exceeded'' VEO_API_KEY_ERROR_MESSAGE \<longrightarrow>
     an_apiKeyStatus (fst (CharacterAnimator_handleAnimate (\<lambda>_ _. Inr ''R'')
        (\<lambda>_. Inr \<lparr>resp_ok = False, resp_statusText = ''Too Many Requests'',
                    resp_text = ''quota exceeded'', resp_blobUrl = []\<rparr>)
        (Some ''K'') \<lparr>img_data = Some ''QQ'', img_type = ''image/png''\<rparr> ''wave''
        (CharacterAnimator_init\<lparr>an_apiKeyStatus := Selected\<rparr>, \<lparr>libraryCreations = [], toasts = []\<rparr>)))
       = an_apiKeyStatus (CharacterAnimator_init\<lparr>an_apiKeyStatus := Selected\<rparr>)
     \<and> an_error (fst (CharacterAnimator_handleAnimate (\<lambda>_ _. Inr ''R'')
        (\<lambda>_. Inr \<lparr>resp_ok = False, resp_statusText = ''Too Many Requests'',
                    resp_text = ''quota exceeded'', resp_blobUrl = []\<rparr>)
        (Some ''K'') \<lparr>img_data = Some ''QQ'', img_type = ''image/png''\<rparr> ''wave''
        (CharacterAnimator_init\<lparr>an_apiKeyStatus := Selected\<rparr>, \<lparr>libraryCreations = [], toasts = []\<rparr>)))
       = Some (''Failed to download video: '' @ ''Too Many Requests'' @ '' - '' @ ''quota exceeded'')"
    using C3_download_failure_classification
    [of "\<lambda>_ _. Inr ''R''" "\<lparr>img_data = Some ''QQ'', img_type = ''image/png''\<rparr>" "''wave''" "''R''"
        "\<lambda>_. Inr \<lparr>resp_ok = False, resp_statusText = ''Too Many Requests'',
                    resp_text = ''quota exceeded'', resp_blobUrl = []\<rparr>"
        "Some ''K''"
        "\<lparr>resp_ok = False, resp_statusText = ''Too Many Requests'',
                    resp_text = ''quota exceeded'', resp_blobUrl = []\<rparr>"
        "CharacterAnimator_init\<lparr>an_apiKeyStatus := Selected\<rparr>"
        "\<lparr>libraryCreations = [], toasts = []\<rparr>"]
    by (simp only: fetch_response.simps simp_thms True_implies_equals; blast)
  show ?thesis
    using poll sig nosig rejected generic
    by (simp only: sel msg simp_thms)
qed

subsection \<open>C6: the polling loop of the video generation\<close>

text \<open>
  The loop on a finished operation, on a service whose answer number \<open>j\<close> is the first
  finished one, and on a service that never finishes.
\<close>

lemma poll_loop_done: "op_done operation \<Longrightarrow> poll_loop g n log operation = Some (log, Inr operation)"
  by (simp add: poll_loop.simps)

lemma poll_loop_first_done:
  "\<not> op_done operation \<Longrightarrow> (\<forall>i<j. \<exists>p. g (n + i) = Inr p \<and> \<not> op_done p)
     \<Longrightarrow> g (n + j) = Inr final \<Longrightarrow> op_done final
     \<Longrightarrow> poll_loop g n log operation
           = Some (log @ concat (replicate (Suc j) [Wait 10000, Query]), Inr final)"
proof (induction j arbitrary: n log operation)
  case 0
  then show ?case
    by (subst poll_loop.simps) (simp add: poll_loop_done)
next
  case (Suc j)
  from Suc.prems(2) obtain p where p: "g n = Inr p" "\<not> op_done p"
    by (metis add.right_neutral zero_less_Suc)
  have rest: "\<forall>i<j. \<exists>q. g (Suc n + i) = Inr q \<and> \<not> op_done q"
    using Suc.prems(2) by (metis Suc_less_eq add_Suc_shift)
  have fin: "g (Suc n + j) = Inr final" using Suc.prems(3) by simp
  have "poll_loop g n log operation = poll_loop g (Suc n) (log @ [Wait 10000, Query]) p"
    using Suc.prems(1) p by (subst poll_loop.simps) simp
  also have "\<dots> = Some ((log @ [Wait 10000, Query]) @ concat (replicate (Suc j) [Wait 10000, Query]),
                      Inr final)"
    using Suc.IH [OF p(2) rest fin Suc.prems(4)] .
  finally show ?case by simp
qed


lemma poll_loop_never_done_aux:
  assumes "poll_loop g n log operation = Some r"
  shows "\<not> (\<not> op_done operation \<and> (\<forall>i. \<exists>p. g i = Inr p \<and> \<not> op_done p))"
proof (rule poll_loop.raw_induct
    [where P = "\<lambda>g n log operation r.
                  \<not> (\<not> op_done operation \<and> (\<forall>i. \<exists>p. g i = Inr p \<and> \<not> op_done p))",
     OF _ assms])
  fix f g n log operation r
  assume IH: "\<And>g n log operation r. f g n log operation = Some r
                \<Longrightarrow> \<not> (\<not> op_done operation \<and> (\<forall>i. \<exists>p. g i = Inr p \<and> \<not> op_done p))"
    and body: "(if op_done operation then Some (log, Inr operation)
                else case g n of
                       Inl message \<Rightarrow> Some (log @ [Wait 10000, Query], Inl message)
                     | Inr operation' \<Rightarrow> f g (Suc n) (log @ [Wait 10000, Query]) operation') = Some r"
  show "\<not> (\<not> op_done operation \<and> (\<forall>i. \<exists>p. g i = Inr p \<and> \<not> op_done p))"
  proof
    assume a: "\<not> op_done operation \<and> (\<forall>i. \<exists>p. g i = Inr p \<and> \<not> op_done p)"
    then obtain p where p: "g n = Inr p" "\<not> op_done p" by blast
    with body a have "f g (Suc n) (log @ [Wait 10000, Query]) p = Some r" by simp
    from IH [OF this] a p show False by blast
  qed
qed

lemma poll_loop_never_done:
  "\<not> op_done operation \<Longrightarrow> (\<forall>i. \<exists>p. g i = Inr p \<and> \<not> op_done p)
     \<Longrightarrow> poll_loop g n log operation = None"
  using poll_loop_never_done_aux [of g n log operation] by (cases "poll_loop g n log operation") auto

text \<open>
  Claim C6, as the code has it. With an API key and an accepted submission, the loop
  first tests the operation returned by the submission: if it is already done, the poller
  completes with no wait and no query. Otherwise, when the answers to the first \<open>j\<close>
  queries are pending and the next answer is done (the first done report is number
  \<open>j + 1\<close>), the poller makes exactly \<open>j + 1\<close> cycles, each a wait of 10000 ms followed by
  one query; when no answer is ever done it does not return. On completion it throws
  exactly when the final operation has no non-empty download link.
\<close>

theorem C6_poll_cycles:
  assumes "truthy apiKey"
  shows "(op_done submitted \<longrightarrow>
            animateCharacter apiKey (Inr submitted) g
              = Some ([], if truthy (op_uri submitted) then Inr (the (op_uri submitted))
                          else Inl (Some ''Video generation failed to produce a download link.'')))
       \<and> (\<not> op_done submitted \<and> (\<forall>i<j. \<exists>p. g i = Inr p \<and> \<not> op_done p)
            \<and> g j = Inr final \<and> op_done final \<longrightarrow>
            animateCharacter apiKey (Inr submitted) g
              = Some (concat (replicate (Suc j) [Wait 10000, Query]),
                      if truthy (op_uri final) then Inr (the (op_uri final))
                      else Inl (Some ''Video generation failed to produce a download link.'')))
       \<and> (\<not> op_done submitted \<and> (\<forall>i. \<exists>p. g i = Inr p \<and> \<not> op_done p) \<longrightarrow>
            animateCharacter apiKey (Inr submitted) g = None)"
proof (intro conjI impI)
  assume "op_done submitted"
  then show "animateCharacter apiKey (Inr submitted) g
              = Some ([], if truthy (op_uri submitted) then Inr (the (op_uri submitted))
                          else Inl (Some ''Video generation failed to produce a download link.''))"
    using assms by (simp add: animateCharacter_def poll_loop_done Let_def)
next
  assume a: "\<not> op_done submitted \<and> (\<forall>i<j. \<exists>p. g i = Inr p \<and> \<not> op_done p)
            \<and> g j = Inr final \<and> op_done final"
  then have "poll_loop g 0 [] submitted
               = Some ([] @ concat (replicate (Suc j) [Wait 10000, Query]), Inr final)"
    by (intro poll_loop_first_done) simp_all
  then show "animateCharacter apiKey (Inr submitted) g
              = Some (concat (replicate (Suc j) [Wait 10000, Query]),
                      if truthy (op_uri final) then Inr (the (op_uri final))
                      else Inl (Some ''Video generation failed to produce a download link.''))"
    using assms by (simp add: animateCharacter_def Let_def)
next
  assume "\<not> op_done submitted \<and> (\<forall>i. \<exists>p. g i = Inr p \<and> \<not> op_done p)"
  then have "poll_loop g 0 [] submitted = None"
    by (intro poll_loop_never_done) simp_all
  then show "animateCharacter apiKey (Inr submitted) g = None"
    using assms by (simp add: animateCharacter_def)
qed

text \<open>
  Two pending answers and then a finished one with the link \<open>R\<close>: three cycles. A
  finished first answer without a link: one cycle, then the error. A service that never
  finishes: no result.
\<close>

theorem C6_poll_cycles_witness:
  "animateCharacter (Some ''K'') (Inr \<lparr>op_done = False, op_uri = None\<rparr>)
      (getVideosOperation_after 2 \<lparr>op_done = False, op_uri = None\<rparr> \<lparr>op_done = True, op_uri = Some ''R''\<rparr>)
     = Some ([Wait 10000, Query, Wait 10000, Query, Wait 10000, Query], Inr ''R'')
   \<and> animateCharacter (Some ''K'') (Inr \<lparr>op_done = False, op_uri = None\<rparr>)
      (getVideosOperation_after 0 \<lparr>op_done = False, op_uri = None\<rparr> \<lparr>op_done = True, op_uri = None\<rparr>)
     = Some ([Wait 10000, Query], Inl (Some ''Video generation failed to produce a download link.''))
   \<and> animateCharacter (Some ''K'') (Inr \<lparr>op_done = False, op_uri = None\<rparr>)
      (getVideosOperation_always \<lparr>op_done = False, op_uri = None\<rparr>) = None"
proof -
  have key: "truthy (Some ''K'')" by (simp add: truthy_def)
  have first: "\<not> op_done \<lparr>op_done = False, op_uri = None\<rparr>
      \<and> (\<forall>i<2. \<exists>p. getVideosOperation_after 2 \<lparr>op_done = False, op_uri = None\<rparr>
                       \<lparr>op_done = True, op_uri = Some ''R''\<rparr> i = Inr p \<and> \<not> op_done p)
      \<and> getVideosOperation_after 2 \<lparr>op_done = False, op_uri = None\<rparr>
           \<lparr>op_done = True, op_uri = Some ''R''\<rparr> 2 = Inr \<lparr>op_done = True, op_uri = Some ''R''\<rparr>
      \<and> op_done \<lparr>op_done = True, op_uri = Some ''R''\<rparr>"
    by (simp add: getVideosOperation_after_def)
  have nolink: "\<not> op_done \<lparr>op_done = False, op_uri = None\<rparr>
      \<and> (\<forall>i<0. \<exists>p. getVideosOperation_after 0 \<lparr>op_done = False, op_uri = None\<rparr>
                       \<lparr>op_done = True, op_uri = None\<rparr> i = Inr p \<and> \<not> op_done p)
      \<and> getVideosOperation_after 0 \<lparr>op_done = False, op_uri = None\<rparr>
           \<lparr>op_done = True, op_uri = None\<rparr> 0 = Inr \<lparr>op_done = True, op_uri = None\<rparr>
      \<and> op_done \<lparr>op_done = True, op_uri = None\<rparr>"
    by (simp add: getVideosOperation_after_def)
  have never: "\<not> op_done \<lparr>op_done = False, op_uri = None\<rparr>
      \<and> (\<forall>i. \<exists>p. getVideosOperation_always \<lparr>op_done = False, op_uri = None\<rparr> i = Inr p
                     \<and> \<not> op_done p)"
    by (simp add: getVideosOperation_always_def)
  have log3: "concat (replicate 3 [Wait 10000, Query])
      = [Wait 10000, Query, Wait 10000, Query, Wait 10000, Query]"
    by (simp add: numeral_3_eq_3)
  have log1: "concat (replicate (Suc 0) [Wait 10000, Query]) = [Wait 10000, Query]"
    by simp
  from C6_poll_cycles [OF key, of "\<lparr>op_done = False, op_uri = None\<rparr>"
      "getVideosOperation_after 2 \<lparr>op_done = False, op_uri = None\<rparr> \<lparr>op_done = True, op_uri = Some ''R''\<rparr>"
      2 "\<lparr>op_done = True, op_uri = Some ''R''\<rparr>"] first
  have a: "animateCharacter (Some ''K'') (Inr \<lparr>op_done = False, op_uri = None\<rparr>)
      (getVideosOperation_after 2 \<lparr>op_done = False, op_uri = None\<rparr> \<lparr>op_done = True, op_uri = Some ''R''\<rparr>)
     = Some ([Wait 10000, Query, Wait 10000, Query, Wait 10000, Query], Inr ''R'')"
    by (simp add: log3 truthy_def)
  from C6_poll_cycles [OF key, of "\<lparr>op_done = False, op_uri = None\<rparr>"
      "getVideosOperation_after 0 \<lparr>op_done = False, op_uri = None\<rparr> \<lparr>op_done = True, op_uri = None\<rparr>"
      0 "\<lparr>op_done = True, op_uri = None\<rparr>"] nolink
  have b: "animateCharacter (Some ''K'') (Inr \<lparr>op_done = False, op_uri = None\<rparr>)
      (getVideosOperation_after 0 \<lparr>op_done = False, op_uri = None\<rparr> \<lparr>op_done = True, op_uri = None\<rparr>)
     = Some ([Wait 10000, Query], Inl (Some ''Video generation failed to produce a download link.''))"
    by (simp add: truthy_def)
  from C6_poll_cycles [OF key, of "\<lparr>op_done = False, op_uri = None\<rparr>"
      "getVideosOperation_always \<lparr>op_done = False, op_uri = None\<rparr>"] never
  have c: "animateCharacter (Some ''K'') (Inr \<lparr>op_done = False, op_uri = None\<rparr>)
      (getVideosOperation_always \<lparr>op_done = False, op_uri = None\<rparr>) = None"
    by simp
  from a b c show ?thesis by blast
qed

text \<open>
  A submission that returns a finished operation: the first status report of the service
  would be done, yet the poller makes no cycle at all and returns the link at once.
\<close>

theorem C6_done_at_submission_counterexample:
  "getVideosOperation_always \<lparr>op_done = True, op_uri = Some ''R''\<rparr> 0
     = Inr \<lparr>op_done = True, op_uri = Some ''R''\<rparr>
   \<and> animateCharacter (Some ''K'') (Inr \<lparr>op_done = True, op_uri = Some ''R''\<rparr>)
      (getVideosOperation_always \<lparr>op_done = True, op_uri = Some ''R''\<rparr>)
     = Some ([], Inr ''R'')
   \<and> animateCharacter (Some ''K'') (Inr \<lparr>op_done = True, op_uri = Some ''R''\<rparr>)
      (getVideosOperation_always \<lparr>op_done = True, op_uri = Some ''R''\<rparr>)
     \<noteq> Some ([Wait 10000, Query], Inr ''R'')"
  by (simp add: getVideosOperation_always_def animateCharacter_def truthy_def poll_loop.simps)

subsection \<open>C8 and C10: iterating on the latest image\<close>

text \<open>
  The last entry of a non-empty array, the request of an edit without assets, and the
  image files read back from two data URLs.
\<close>

lemma js_at_last: "xs \<noteq> [] \<Longrightarrow> js_at xs (int (length xs) - 1) = Some (last xs)"
  by (cases xs rule: rev_cases) (simp_all add: js_at_def nth_append)

lemma generateImage_edit_parts:
  "generateImage_parts prompt (Some img) [] = [TextPart prompt, imageToPart img]"
  by (simp add: generateImage_parts_def)

lemma lastImageFile_png_AAAA:
  "lastImageFile ''data:image/png;base64,AAAA'' = \<lparr>img_data = Some ''AAAA'', img_type = ''image/png''\<rparr>"
  by (simp add: lastImageFile_def split_comma_1_def mime_at_def or_default_def truthy_def)

lemma lastImageFile_png_CCCC:
  "lastImageFile ''data:image/png;base64,CCCC'' = \<lparr>img_data = Some ''CCCC'', img_type = ''image/png''\<rparr>"
  by (simp add: lastImageFile_def split_comma_1_def mime_at_def or_default_def truthy_def)

text \<open>
  Claim C8. On a non-empty history \<open>handleIterateImage\<close> calls the service exactly once,
  with the request made of one text part, the iteration prompt, followed by one image
  part, the image file read back from the last history entry. The asset library and the
  source image of the state take no part in the request: replacing them changes nothing
  but their own fields of the resulting state.
\<close>

theorem C8_iterate_request_parts:
  assumes "ca_imageHistory s \<noteq> []"
  shows "CreativeAssistant_handleIterateImage backend iterationPrompt s
           = IterateDone
               (CreativeAssistant_iterate_end (ca_imageHistory s)
                  (case backend [TextPart iterationPrompt,
                                 imageToPart (lastImageFile (last (ca_imageHistory s)))] of
                     Inl message \<Rightarrow> Inl message
                   | Inr parts \<Rightarrow> generateImage_result parts)
                  (s\<lparr>ca_isLoading := True, ca_error := None\<rparr>))
         \<and> generateImage_parts iterationPrompt (Some (lastImageFile (last (ca_imageHistory s)))) []
           = [TextPart iterationPrompt, imageToPart (lastImageFile (last (ca_imageHistory s)))]
         \<and> CreativeAssistant_handleIterateImage backend iterationPrompt
             (s\<lparr>ca_assetLibrary := assets, ca_sourceImage := source\<rparr>)
           = IterateDone
               (CreativeAssistant_iterate_end (ca_imageHistory s)
                  (case backend [TextPart iterationPrompt,
                                 imageToPart (lastImageFile (last (ca_imageHistory s)))] of
                     Inl message \<Rightarrow> Inl message
                   | Inr parts \<Rightarrow> generateImage_result parts)
                  (s\<lparr>ca_assetLibrary := assets, ca_sourceImage := source,
                     ca_isLoading := True, ca_error := None\<rparr>))"
  using assms
  by (simp add: CreativeAssistant_handleIterateImage_def js_at_last generateImage_def
      generateImage_edit_parts Let_def)

text \<open>
  A state with an asset and a source image, and a service that accepts only the request
  of the prompt followed by the image \<open>AAAA\<close>: the iteration succeeds.
\<close>

theorem C8_iterate_request_witness:
  "CreativeAssistant_handleIterateImage
     (backend_expecting [TextPart ''add a hat'', InlineData (Some ''AAAA'') ''image/png'']
        [InlineData (Some ''BBBB'') ''image/jpeg''])
     ''add a hat''
     (CreativeAssistant_init
        \<lparr>ca_imageHistory := [''data:image/png;base64,AAAA''],
         ca_assetLibrary := [\<lparr>img_data = Some ''ZZZZ'', img_type = ''image/gif''\<rparr>],
         ca_sourceImage := Some \<lparr>img_data = Some ''YYYY'', img_type = ''image/gif''\<rparr>\<rparr>)
   = IterateDone
      (CreativeAssistant_init
        \<lparr>ca_imageHistory := [''data:image/png;base64,AAAA'', ''data:image/jpeg;base64,BBBB''],
         ca_currentHistoryIndex := 1,
         ca_assetLibrary := [\<lparr>img_data = Some ''ZZZZ'', img_type = ''image/gif''\<rparr>],
         ca_sourceImage := Some \<lparr>img_data = Some ''YYYY'', img_type = ''image/gif''\<rparr>\<rparr>)"
proof -
  have h: "ca_imageHistory (CreativeAssistant_init\<lparr>ca_imageHistory := [''data:image/png;base64,AAAA'']\<rparr>) \<noteq> []"
    by simp
  have l: "last (ca_imageHistory (CreativeAssistant_init\<lparr>ca_imageHistory := [''data:image/png;base64,AAAA'']\<rparr>))
      = ''data:image/png;base64,AAAA''"
    by simp
  from C8_iterate_request_parts [OF h,
      where backend = "backend_expecting [TextPart ''add a hat'', InlineData (Some ''AAAA'') ''image/png'']
            [InlineData (Some ''BBBB'') ''image/jpeg'']"
        and iterationPrompt = "''add a hat''"
        and assets = "[\<lparr>img_data = Some ''ZZZZ'', img_type = ''image/gif''\<rparr>]"
        and source = "Some \<lparr>img_data = Some ''YYYY'', img_type = ''image/gif''\<rparr>"]
  show ?thesis
    by (simp add: l lastImageFile_png_AAAA imageToPart_def backend_expecting_def
        CreativeAssistant_iterate_end_def CreativeAssistant_init_def js_text_def)
qed

text \<open>
  Claim C10. Whatever entry is selected, when the call on the request built from the last
  history entry succeeds with \<open>url\<close>, \<open>handleIterateImage\<close> appends \<open>url\<close> after the
  existing entries and moves the cursor to the new last index.
\<close>

theorem C10_iterate_uses_latest:
  assumes "ca_imageHistory s \<noteq> []"
    and "backend [TextPart iterationPrompt, imageToPart (lastImageFile (last (ca_imageHistory s)))]
           = Inr parts"
    and "generateImage_result parts = Inr url"
  shows "CreativeAssistant_handleIterateImage backend iterationPrompt (s\<lparr>ca_currentHistoryIndex := cursor\<rparr>)
           = IterateDone (s\<lparr>ca_isLoading := False, ca_error := None,
                            ca_imageHistory := ca_imageHistory s @ [url],
                            ca_currentHistoryIndex := int (length (ca_imageHistory s))\<rparr>)"
  using assms
  by (simp add: CreativeAssistant_handleIterateImage_def js_at_last generateImage_def
      generateImage_edit_parts CreativeAssistant_iterate_end_def Let_def)

text \<open>
  A history of two images with the first one selected: the request carries the second
  image, \<open>CCCC\<close>, the result is appended as third entry and becomes the selected one.
\<close>

theorem C10_iterate_uses_latest_witness:
  "(0::int) < int (length [''data:image/png;base64,AAAA'', ''data:image/png;base64,CCCC'']) - 1
   \<and> CreativeAssistant_handleIterateImage
       (backend_expecting [TextPart ''make it night'', InlineData (Some ''CCCC'') ''image/png'']
          [InlineData (Some ''DDDD'') ''image/png''])
       ''make it night''
       (CreativeAssistant_init
          \<lparr>ca_imageHistory := [''data:image/png;base64,AAAA'', ''data:image/png;base64,CCCC''],
           ca_currentHistoryIndex := 0\<rparr>)
     = IterateDone
        (CreativeAssistant_init
          \<lparr>ca_imageHistory := [''data:image/png;base64,AAAA'', ''data:image/png;base64,CCCC'',
                               ''data:image/png;base64,DDDD''],
           ca_currentHistoryIndex := 2\<rparr>)"
proof -
  let ?s = "CreativeAssistant_init
          \<lparr>ca_imageHistory := [''data:image/png;base64,AAAA'', ''data:image/png;base64,CCCC'']\<rparr>"
  have h: "ca_imageHistory ?s \<noteq> []" by simp
  have b: "backend_expecting [TextPart ''make it night'', InlineData (Some ''CCCC'') ''image/png'']
          [InlineData (Some ''DDDD'') ''image/png'']
          [TextPart ''make it night'', imageToPart (lastImageFile (last (ca_imageHistory ?s)))]
        = Inr [InlineData (Some ''DDDD'') ''image/png'']"
    by (simp add: lastImageFile_png_CCCC imageToPart_def backend_expecting_def)
  have r: "generateImage_result [InlineData (Some ''DDDD'') ''image/png'']
        = Inr ''data:image/png;base64,DDDD''"
    by (simp add: js_text_def)
  from C10_iterate_uses_latest
    [where s = ?s and iterationPrompt = "''make it night''"
       and backend = "backend_expecting [TextPart ''make it night'', InlineData (Some ''CCCC'') ''image/png'']
          [InlineData (Some ''DDDD'') ''image/png'']"
       and parts = "[InlineData (Some ''DDDD'') ''image/png'']"
       and url = "''data:image/png;base64,DDDD''" and cursor = 0, OF h b r]
  show ?thesis by (simp add: CreativeAssistant_init_def)
qed

subsection \<open>C7: the two images of the comparison slider\<close>

text \<open>
  Claim C7, as the code has it. FaceSwap and BackgroundRemover show the slider with the
  original upload as \<open>before\<close> image and the current history entry as \<open>after\<close> image,
  whatever the cursor. CreativeAssistant shows the slider with the entry before the
  cursor and the entry at the cursor when the cursor is past the first entry; at the
  first entry it shows the current image alone, with no comparison.
\<close>

theorem C7_before_after_pairs:
  "(\<not> fs_isLoading fs \<and> \<not> truthy (fs_error fs) \<and> truthy (FaceSwap_result fs)
      \<and> truthy (fs_originalImage fs) \<longrightarrow>
      FaceSwap_renderContent fs = FS_Result (the (fs_originalImage fs)) (the (FaceSwap_result fs)))
   \<and> (\<not> br_isLoading br \<and> \<not> truthy (br_error br) \<and> br_stage br = BR_result
      \<and> truthy (BackgroundRemover_finalResult br) \<and> truthy (br_originalImage br) \<longrightarrow>
      BackgroundRemover_renderContent br
        = BR_Result (the (br_originalImage br)) (the (BackgroundRemover_finalResult br)))
   \<and> (0 < ca_currentHistoryIndex ca
      \<and> ca_currentHistoryIndex ca < int (length (ca_imageHistory ca))
      \<and> ca_imageHistory ca ! nat (ca_currentHistoryIndex ca - 1) \<noteq> [] \<longrightarrow>
      CreativeAssistant_renderResults ca
        = CA_BeforeAfter (ca_imageHistory ca ! nat (ca_currentHistoryIndex ca - 1))
            (Some (ca_imageHistory ca ! nat (ca_currentHistoryIndex ca))))
   \<and> (ca_currentHistoryIndex ca = 0 \<longrightarrow>
      CreativeAssistant_renderResults ca = CA_Single (js_at (ca_imageHistory ca) 0))"
  by (simp add: FaceSwap_renderContent_def BackgroundRemover_renderContent_def
      CreativeAssistant_renderResults_def Let_def js_at_def truthy_def)

text \<open>
  Histories of two entries with the cursor on the second: FaceSwap and BackgroundRemover
  compare with the upload \<open>O\<close>, CreativeAssistant with the first entry; with the cursor
  on the first entry CreativeAssistant shows it alone.
\<close>

theorem C7_before_after_witness:
  "FaceSwap_renderContent
     (FaceSwap_init\<lparr>fs_editHistory := [''A'', ''B''], fs_editHistoryIndex := 1,
                     fs_originalImage := Some ''O''\<rparr>) = FS_Result ''O'' ''B''
   \<and> BackgroundRemover_renderContent
     (BackgroundRemover_init\<lparr>br_stage := BR_result, br_editHistory := [''A'', ''B''],
                               br_editHistoryIndex := 1, br_originalImage := Some ''O''\<rparr>)
     = BR_Result ''O'' ''B''
   \<and> CreativeAssistant_renderResults
     (CreativeAssistant_init\<lparr>ca_imageHistory := [''U1'', ''U2''], ca_currentHistoryIndex := 1\<rparr>)
     = CA_BeforeAfter ''U1'' (Some ''U2'')
   \<and> CreativeAssistant_renderResults
     (CreativeAssistant_init\<lparr>ca_imageHistory := [''U1'', ''U2''], ca_currentHistoryIndex := 0\<rparr>)
     = CA_Single (Some ''U1'')"
  using C7_before_after_pairs
    [of "FaceSwap_init\<lparr>fs_editHistory := [''A'', ''B''], fs_editHistoryIndex := 1,
                     fs_originalImage := Some ''O''\<rparr>"
        "BackgroundRemover_init\<lparr>br_stage := BR_result, br_editHistory := [''A'', ''B''],
                               br_editHistoryIndex := 1, br_originalImage := Some ''O''\<rparr>"
        "CreativeAssistant_init\<lparr>ca_imageHistory := [''U1'', ''U2''], ca_currentHistoryIndex := 1\<rparr>"]
    C7_before_after_pairs
    [of FaceSwap_init BackgroundRemover_init
        "CreativeAssistant_init\<lparr>ca_imageHistory := [''U1'', ''U2''], ca_currentHistoryIndex := 0\<rparr>"]
  by (simp add: FaceSwap_init_def FaceSwap_result_def BackgroundRemover_init_def
      BackgroundRemover_finalResult_def CreativeAssistant_init_def js_at_def truthy_def)

text \<open>
  FaceSwap after a generation \<open>A\<close> and an edit \<open>B\<close>: the history is \<open>[A, B]\<close> with the
  cursor at 1, and the slider compares \<open>B\<close> with the upload, not with \<open>A\<close>. And the first
  entry of CreativeAssistant, with a source image uploaded, is shown without any
  \<open>before\<close> image.
\<close>

theorem C7_face_swap_counterexample:
  "fs_editHistory (fst (FaceSwap_run
       [FS_GenerateBegin \<lparr>img_data = Some ''QQ'', img_type = ''image/png''\<rparr>,
        FS_GenerateEnd (Inr ''A''), FS_EditComplete ''B'']
       (FaceSwap_init, \<lparr>libraryCreations = [], toasts = []\<rparr>))) = [''A'', ''B'']
   \<and> fs_editHistoryIndex (fst (FaceSwap_run
       [FS_GenerateBegin \<lparr>img_data = Some ''QQ'', img_type = ''image/png''\<rparr>,
        FS_GenerateEnd (Inr ''A''), FS_EditComplete ''B'']
       (FaceSwap_init, \<lparr>libraryCreations = [], toasts = []\<rparr>))) = 1
   \<and> FaceSwap_renderContent (fst (FaceSwap_run
       [FS_GenerateBegin \<lparr>img_data = Some ''QQ'', img_type = ''image/png''\<rparr>,
        FS_GenerateEnd (Inr ''A''), FS_EditComplete ''B'']
       (FaceSwap_init, \<lparr>libraryCreations = [], toasts = []\<rparr>)))
       = FS_Result ''data:image/png;base64,QQ'' ''B''
   \<and> FaceSwap_renderContent (fst (FaceSwap_run
       [FS_GenerateBegin \<lparr>img_data = Some ''QQ'', img_type = ''image/png''\<rparr>,
        FS_GenerateEnd (Inr ''A''), FS_EditComplete ''B'']
       (FaceSwap_init, \<lparr>libraryCreations = [], toasts = []\<rparr>)))
       \<noteq> FS_Result ''A'' ''B''
   \<and> CreativeAssistant_renderResults
       (CreativeAssistant_init
          \<lparr>ca_sourceImage := Some \<lparr>img_data = Some ''QQ'', img_type = ''image/png''\<rparr>,
           ca_imageHistory := [''U1''], ca_currentHistoryIndex := 0\<rparr>)
       = CA_Single (Some ''U1'')"
  by (simp add: FaceSwap_run_def FaceSwap_init_def FaceSwap_generate_begin_def
      FaceSwap_generate_end_def FaceSwap_handleEditComplete_def js_slice0_def Let_def
      FaceSwap_renderContent_def FaceSwap_result_def js_at_def truthy_def dataUrl_def js_text_def
      CreativeAssistant_renderResults_def CreativeAssistant_init_def)

subsection \<open>C9: saving twice\<close>

lemma handleCreationComplete_eq:
  "handleCreationComplete item a
     = a\<lparr>libraryCreations := item # libraryCreations a,
         toasts := toasts a @ [''Saved to Library!'']\<rparr>"
  by (simp add: handleCreationComplete_def addToast_def)

lemma ca_save_inv:
  assumes "distinct (map li_imageUrl (libraryCreations a))"
    and "set (map li_imageUrl (libraryCreations a)) \<subseteq> set (ca_savedImageUrls s)"
  shows "distinct (map li_imageUrl (libraryCreations (snd (CreativeAssistant_handleSaveToLibrary (s, a)))))
       \<and> set (map li_imageUrl (libraryCreations (snd (CreativeAssistant_handleSaveToLibrary (s, a)))))
           \<subseteq> set (ca_savedImageUrls (fst (CreativeAssistant_handleSaveToLibrary (s, a))))"
  using assms
  by (auto simp add: CreativeAssistant_handleSaveToLibrary_def Let_def handleCreationComplete_eq
      addToast_def)

lemma content_step_saved:
  "content_step c e = Some c' \<Longrightarrow> ca_savedImageUrls (snd c') = ca_savedImageUrls (snd c)"
  by (cases c; cases e)
     (auto simp add: content_fail_def content_join_def Let_def split: if_splits sum.splits)

lemma content_exec_saved:
  "content_exec c es = Some c' \<Longrightarrow> ca_savedImageUrls (snd c') = ca_savedImageUrls (snd c)"
proof (induction es arbitrary: c)
  case Nil
  then show ?case by simp
next
  case (Cons e es)
  then show ?case by (auto split: option.splits dest: content_step_saved)
qed

lemma CreativeAssistant_step_saved:
  "e \<noteq> CA_StartOver \<Longrightarrow> ca_saved_inv sa \<Longrightarrow> ca_saved_inv (CreativeAssistant_step sa e)"
proof (cases sa)
  case (Pair s a)
  assume ne: "e \<noteq> CA_StartOver" and inv: "ca_saved_inv sa"
  show ?thesis
  proof (cases e)
    case (CA_GeneratePrompt outcome t src assets ctl)
    then show ?thesis using Pair inv
      by (cases outcome) (simp_all add: ca_saved_inv_def CreativeAssistant_handleGeneratePrompt_def Let_def)
  next
    case (CA_SetGenerateLyricsFlag x)
    then show ?thesis using Pair inv by (simp add: ca_saved_inv_def)
  next
    case (CA_GenerateContent p es)
    have "ca_savedImageUrls (snd (content_begin p s)) = ca_savedImageUrls s"
      by (simp add: content_begin_def)
    then show ?thesis using Pair inv CA_GenerateContent content_exec_saved [of "content_begin p s" es]
      by (auto simp add: ca_saved_inv_def split: option.splits)
  next
    case CA_IterateBegin
    then show ?thesis using Pair inv by (simp add: ca_saved_inv_def)
  next
    case (CA_IterateEnd h outcome)
    then show ?thesis using Pair inv
      by (cases outcome) (simp_all add: ca_saved_inv_def CreativeAssistant_iterate_end_def Let_def)
  next
    case (CA_SelectThumbnail n)
    then show ?thesis using Pair inv
      by (simp add: ca_saved_inv_def CreativeAssistant_selectThumbnail_def)
  next
    case CA_GoToLatest
    then show ?thesis using Pair inv by (simp add: ca_saved_inv_def CreativeAssistant_goToLatest_def)
  next
    case CA_OpenEditor
    then show ?thesis using Pair inv by (simp add: ca_saved_inv_def)
  next
    case CA_CloseEditor
    then show ?thesis using Pair inv by (simp add: ca_saved_inv_def)
  next
    case (CA_EditComplete u)
    then show ?thesis using Pair inv
      by (simp add: ca_saved_inv_def CreativeAssistant_handleEditComplete_def Let_def)
  next
    case CA_Save
    then show ?thesis using Pair inv ca_save_inv [of a s]
      by (simp add: ca_saved_inv_def)
  next
    case CA_StartOver
    then show ?thesis using ne by simp
  qed
qed

lemma CreativeAssistant_run_saved:
  "CA_StartOver \<notin> set es \<Longrightarrow> ca_saved_inv sa \<Longrightarrow> ca_saved_inv (CreativeAssistant_run es sa)"
  unfolding CreativeAssistant_run_def
proof (induction es arbitrary: sa)
  case Nil
  then show ?case by simp
next
  case (Cons e es)
  from Cons.prems have "e \<noteq> CA_StartOver" "CA_StartOver \<notin> set es" by auto
  with Cons.prems(2) have "ca_saved_inv (CreativeAssistant_step sa e)"
    by (simp add: CreativeAssistant_step_saved)
  with Cons.IH \<open>CA_StartOver \<notin> set es\<close> show ?case by simp
qed

text \<open>
  Two saves in a row. From a state whose current image exists and is not marked as
  saved, the first save puts one entry in front of the library, sets the mark and
  notifies \<open>Saved to Library!\<close>; the second leaves the library as it is and only notifies
  \<open>Already saved!\<close>. The mark is the flag \<open>isSaved\<close> of the component in FaceSwap and
  BackgroundRemover, and the membership of the URL in \<open>savedImageUrls\<close> in
  CreativeAssistant. In CreativeAssistant, moreover, after any sequence of events without
  \<open>Start Over\<close> no two library entries have the same URL.
\<close>

lemma save_twice_in_a_row:
  "(truthy (FaceSwap_result fs) \<and> truthy (fs_originalImage fs) \<and> \<not> fs_isSaved fs \<longrightarrow>
      FaceSwap_handleSave (fs, a)
        = (fs\<lparr>fs_isSaved := True\<rparr>,
           a\<lparr>libraryCreations :=
                \<lparr>li_type = ''Face Swap'', li_imageUrl = the (FaceSwap_result fs),
                 li_originalUrl = fs_originalImage fs, li_videoUrl = None\<rparr> # libraryCreations a,
              toasts := toasts a @ [''Saved to Library!'']\<rparr>)
      \<and> FaceSwap_handleSave (FaceSwap_handleSave (fs, a))
        = (fs\<lparr>fs_isSaved := True\<rparr>,
           a\<lparr>libraryCreations :=
                \<lparr>li_type = ''Face Swap'', li_imageUrl = the (FaceSwap_result fs),
                 li_originalUrl = fs_originalImage fs, li_videoUrl = None\<rparr> # libraryCreations a,
              toasts := toasts a @ [''Saved to Library!'', ''Already saved!'']\<rparr>))
   \<and> (truthy (BackgroundRemover_finalResult br) \<and> truthy (br_originalImage br) \<and> \<not> br_isSaved br \<longrightarrow>
      BackgroundRemover_handleSave (br, a)
        = (br\<lparr>br_isSaved := True\<rparr>,
           a\<lparr>libraryCreations :=
                \<lparr>li_type = ''Background Edit'', li_imageUrl = the (BackgroundRemover_finalResult br),
                 li_originalUrl = br_originalImage br, li_videoUrl = None\<rparr> # libraryCreations a,
              toasts := toasts a @ [''Saved to Library!'']\<rparr>)
      \<and> BackgroundRemover_handleSave (BackgroundRemover_handleSave (br, a))
        = (br\<lparr>br_isSaved := True\<rparr>,
           a\<lparr>libraryCreations :=
                \<lparr>li_type = ''Background Edit'', li_imageUrl = the (BackgroundRemover_finalResult br),
                 li_originalUrl = br_originalImage br, li_videoUrl = None\<rparr> # libraryCreations a,
              toasts := toasts a @ [''Saved to Library!'', ''Already saved!'']\<rparr>))
   \<and> (truthy (CreativeAssistant_currentImage ca)
        \<and> the (CreativeAssistant_currentImage ca) \<notin> set (ca_savedImageUrls ca) \<longrightarrow>
      CreativeAssistant_handleSaveToLibrary (ca, a)
        = (ca\<lparr>ca_savedImageUrls := ca_savedImageUrls ca @ [the (CreativeAssistant_currentImage ca)]\<rparr>,
           a\<lparr>libraryCreations :=
                \<lparr>li_type = ''Jackson'' @ [CHR 0x27] @ ''s Creative AI'',
                 li_imageUrl = the (CreativeAssistant_currentImage ca),
                 li_originalUrl = None, li_videoUrl = None\<rparr> # libraryCreations a,
              toasts := toasts a @ [''Saved to Library!'']\<rparr>)
      \<and> CreativeAssistant_handleSaveToLibrary (CreativeAssistant_handleSaveToLibrary (ca, a))
        = (ca\<lparr>ca_savedImageUrls := ca_savedImageUrls ca @ [the (CreativeAssistant_currentImage ca)]\<rparr>,
           a\<lparr>libraryCreations :=
                \<lparr>li_type = ''Jackson'' @ [CHR 0x27] @ ''s Creative AI'',
                 li_imageUrl = the (CreativeAssistant_currentImage ca),
                 li_originalUrl = None, li_videoUrl = None\<rparr> # libraryCreations a,
              toasts := toasts a @ [''Saved to Library!'', ''Already saved!'']\<rparr>))
   \<and> (CA_StartOver \<notin> set es \<longrightarrow>
      distinct (map li_imageUrl (libraryCreations (snd
        (CreativeAssistant_run es (CreativeAssistant_init, \<lparr>libraryCreations = [], toasts = []\<rparr>))))))"
proof (intro conjI impI)
  assume "truthy (FaceSwap_result fs) \<and> truthy (fs_originalImage fs) \<and> \<not> fs_isSaved fs"
  then show "FaceSwap_handleSave (fs, a)
        = (fs\<lparr>fs_isSaved := True\<rparr>,
           a\<lparr>libraryCreations :=
                \<lparr>li_type = ''Face Swap'', li_imageUrl = the (FaceSwap_result fs),
                 li_originalUrl = fs_originalImage fs, li_videoUrl = None\<rparr> # libraryCreations a,
              toasts := toasts a @ [''Saved to Library!'']\<rparr>)"
    by (simp add: FaceSwap_handleSave_def Let_def handleCreationComplete_eq)
  then show "FaceSwap_handleSave (FaceSwap_handleSave (fs, a))
        = (fs\<lparr>fs_isSaved := True\<rparr>,
           a\<lparr>libraryCreations :=
                \<lparr>li_type = ''Face Swap'', li_imageUrl = the (FaceSwap_result fs),
                 li_originalUrl = fs_originalImage fs, li_videoUrl = None\<rparr> # libraryCreations a,
              toasts := toasts a @ [''Saved to Library!'', ''Already saved!'']\<rparr>)"
    by (simp add: FaceSwap_handleSave_def Let_def addToast_def)
next
  assume "truthy (BackgroundRemover_finalResult br) \<and> truthy (br_originalImage br) \<and> \<not> br_isSaved br"
  then show "BackgroundRemover_handleSave (br, a)
        = (br\<lparr>br_isSaved := True\<rparr>,
           a\<lparr>libraryCreations :=
                \<lparr>li_type = ''Background Edit'', li_imageUrl = the (BackgroundRemover_finalResult br),
                 li_originalUrl = br_originalImage br, li_videoUrl = None\<rparr> # libraryCreations a,
              toasts := toasts a @ [''Saved to Library!'']\<rparr>)"
    by (simp add: BackgroundRemover_handleSave_def Let_def handleCreationComplete_eq)
  then show "BackgroundRemover_handleSave (BackgroundRemover_handleSave (br, a))
        = (br\<lparr>br_isSaved := True\<rparr>,
           a\<lparr>libraryCreations :=
                \<lparr>li_type = ''Background Edit'', li_imageUrl = the (BackgroundRemover_finalResult br),
                 li_originalUrl = br_originalImage br, li_videoUrl = None\<rparr> # libraryCreations a,
              toasts := toasts a @ [''Saved to Library!'', ''Already saved!'']\<rparr>)"
    by (simp add: BackgroundRemover_handleSave_def Let_def addToast_def)
next
  assume "truthy (CreativeAssistant_currentImage ca)
        \<and> the (CreativeAssistant_currentImage ca) \<notin> set (ca_savedImageUrls ca)"
  then show "CreativeAssistant_handleSaveToLibrary (ca, a)
        = (ca\<lparr>ca_savedImageUrls := ca_savedImageUrls ca @ [the (CreativeAssistant_currentImage ca)]\<rparr>,
           a\<lparr>libraryCreations :=
                \<lparr>li_type = ''Jackson'' @ [CHR 0x27] @ ''s Creative AI'',
                 li_imageUrl = the (CreativeAssistant_currentImage ca),
                 li_originalUrl = None, li_videoUrl = None\<rparr> # libraryCreations a,
              toasts := toasts a @ [''Saved to Library!'']\<rparr>)"
    by (simp add: CreativeAssistant_handleSaveToLibrary_def Let_def handleCreationComplete_eq)
  then show "CreativeAssistant_handleSaveToLibrary (CreativeAssistant_handleSaveToLibrary (ca, a))
        = (ca\<lparr>ca_savedImageUrls := ca_savedImageUrls ca @ [the (CreativeAssistant_currentImage ca)]\<rparr>,
           a\<lparr>libraryCreations :=
                \<lparr>li_type = ''Jackson'' @ [CHR 0x27] @ ''s Creative AI'',
                 li_imageUrl = the (CreativeAssistant_currentImage ca),
                 li_originalUrl = None, li_videoUrl = None\<rparr> # libraryCreations a,
              toasts := toasts a @ [''Saved to Library!'', ''Already saved!'']\<rparr>)"
    by (simp add: CreativeAssistant_handleSaveToLibrary_def Let_def addToast_def
        CreativeAssistant_currentImage_def)
next
  assume "CA_StartOver \<notin> set es"
  moreover have "ca_saved_inv (CreativeAssistant_init, \<lparr>libraryCreations = [], toasts = []\<rparr>)"
    by (simp add: ca_saved_inv_def)
  ultimately have "ca_saved_inv
      (CreativeAssistant_run es (CreativeAssistant_init, \<lparr>libraryCreations = [], toasts = []\<rparr>))"
    by (rule CreativeAssistant_run_saved)
  then show "distinct (map li_imageUrl (libraryCreations (snd
        (CreativeAssistant_run es (CreativeAssistant_init, \<lparr>libraryCreations = [], toasts = []\<rparr>)))))"
    by (simp add: ca_saved_inv_def)
qed

text \<open>
  One image saved twice in each of the three components, and a CreativeAssistant run that
  saves \<open>U1\<close>, edits, selects \<open>U1\<close> again and saves again: one entry.
\<close>

lemma save_twice_in_a_row_example:
  "snd (FaceSwap_handleSave (FaceSwap_handleSave
       (FaceSwap_init\<lparr>fs_editHistory := [''X''], fs_editHistoryIndex := 0,
                       fs_originalImage := Some ''O''\<rparr>,
        \<lparr>libraryCreations = [], toasts = []\<rparr>)))
     = \<lparr>libraryCreations = [\<lparr>li_type = ''Face Swap'', li_imageUrl = ''X'',
                               li_originalUrl = Some ''O'', li_videoUrl = None\<rparr>],
        toasts = [''Saved to Library!'', ''Already saved!'']\<rparr>
   \<and> snd (BackgroundRemover_handleSave (BackgroundRemover_handleSave
       (BackgroundRemover_init\<lparr>br_editHistory := [''X''], br_editHistoryIndex := 0,
                                 br_originalImage := Some ''O''\<rparr>,
        \<lparr>libraryCreations = [], toasts = []\<rparr>)))
     = \<lparr>libraryCreations = [\<lparr>li_type = ''Background Edit'', li_imageUrl = ''X'',
                               li_originalUrl = Some ''O'', li_videoUrl = None\<rparr>],
        toasts = [''Saved to Library!'', ''Already saved!'']\<rparr>
   \<and> snd (CreativeAssistant_handleSaveToLibrary (CreativeAssistant_handleSaveToLibrary
       (CreativeAssistant_init\<lparr>ca_imageHistory := [''U1'']\<rparr>,
        \<lparr>libraryCreations = [], toasts = []\<rparr>)))
     = \<lparr>libraryCreations = [\<lparr>li_type = ''Jackson'' @ [CHR 0x27] @ ''s Creative AI'',
                               li_imageUrl = ''U1'', li_originalUrl = None, li_videoUrl = None\<rparr>],
        toasts = [''Saved to Library!'', ''Already saved!'']\<rparr>
   \<and> map li_imageUrl (libraryCreations (snd (CreativeAssistant_run
        [CA_GenerateContent ''p'' [ImageSettled (Inr ''U1''), TextDone], CA_Save,
         CA_EditComplete ''U2'', CA_SelectThumbnail 0, CA_Save]
        (CreativeAssistant_init, \<lparr>libraryCreations = [], toasts = []\<rparr>)))) = [''U1'']
   \<and> distinct (map li_imageUrl (libraryCreations (snd (CreativeAssistant_run
        [CA_GenerateContent ''p'' [ImageSettled (Inr ''U1''), TextDone], CA_Save,
         CA_EditComplete ''U2'', CA_SelectThumbnail 0, CA_Save]
        (CreativeAssistant_init, \<lparr>libraryCreations = [], toasts = []\<rparr>)))))"
proof -
  have run: "map li_imageUrl (libraryCreations (snd (CreativeAssistant_run
        [CA_GenerateContent ''p'' [ImageSettled (Inr ''U1''), TextDone], CA_Save,
         CA_EditComplete ''U2'', CA_SelectThumbnail 0, CA_Save]
        (CreativeAssistant_init, \<lparr>libraryCreations = [], toasts = []\<rparr>)))) = [''U1'']"
    by (simp add: CreativeAssistant_run_def CreativeAssistant_init_def content_begin_def
        content_join_def CreativeAssistant_handleSaveToLibrary_def
        CreativeAssistant_currentImage_def CreativeAssistant_handleEditComplete_def
        CreativeAssistant_selectThumbnail_def handleCreationComplete_eq addToast_def
        js_at_def truthy_def Let_def)
  have no: "CA_StartOver \<notin> set [CA_GenerateContent ''p'' [ImageSettled (Inr ''U1''), TextDone], CA_Save,
         CA_EditComplete ''U2'', CA_SelectThumbnail 0, CA_Save]"
    by simp
  note inst = save_twice_in_a_row
    [where fs = "FaceSwap_init\<lparr>fs_editHistory := [''X''], fs_editHistoryIndex := 0,
                       fs_originalImage := Some ''O''\<rparr>"
       and br = "BackgroundRemover_init\<lparr>br_editHistory := [''X''], br_editHistoryIndex := 0,
                                 br_originalImage := Some ''O''\<rparr>"
       and ca = "CreativeAssistant_init\<lparr>ca_imageHistory := [''U1'']\<rparr>"
       and a = "\<lparr>libraryCreations = [], toasts = []\<rparr>"
       and es = "[CA_GenerateContent ''p'' [ImageSettled (Inr ''U1''), TextDone], CA_Save,
         CA_EditComplete ''U2'', CA_SelectThumbnail 0, CA_Save]"]
  have d: "distinct (map li_imageUrl (libraryCreations (snd (CreativeAssistant_run
        [CA_GenerateContent ''p'' [ImageSettled (Inr ''U1''), TextDone], CA_Save,
         CA_EditComplete ''U2'', CA_SelectThumbnail 0, CA_Save]
        (CreativeAssistant_init, \<lparr>libraryCreations = [], toasts = []\<rparr>)))))"
    using inst no by blast
  have pf: "truthy (FaceSwap_result (FaceSwap_init\<lparr>fs_editHistory := [''X''], fs_editHistoryIndex := 0,
                       fs_originalImage := Some ''O''\<rparr>))
      \<and> truthy (fs_originalImage (FaceSwap_init\<lparr>fs_editHistory := [''X''], fs_editHistoryIndex := 0,
                       fs_originalImage := Some ''O''\<rparr>))
      \<and> \<not> fs_isSaved (FaceSwap_init\<lparr>fs_editHistory := [''X''], fs_editHistoryIndex := 0,
                       fs_originalImage := Some ''O''\<rparr>)"
    by (simp add: FaceSwap_init_def FaceSwap_result_def js_at_def truthy_def)
  have pb: "truthy (BackgroundRemover_finalResult (BackgroundRemover_init\<lparr>br_editHistory := [''X''],
                       br_editHistoryIndex := 0, br_originalImage := Some ''O''\<rparr>))
      \<and> truthy (br_originalImage (BackgroundRemover_init\<lparr>br_editHistory := [''X''],
                       br_editHistoryIndex := 0, br_originalImage := Some ''O''\<rparr>))
      \<and> \<not> br_isSaved (BackgroundRemover_init\<lparr>br_editHistory := [''X''],
                       br_editHistoryIndex := 0, br_originalImage := Some ''O''\<rparr>)"
    by (simp add: BackgroundRemover_init_def BackgroundRemover_finalResult_def js_at_def truthy_def)
  have pc: "truthy (CreativeAssistant_currentImage (CreativeAssistant_init\<lparr>ca_imageHistory := [''U1'']\<rparr>))
      \<and> the (CreativeAssistant_currentImage (CreativeAssistant_init\<lparr>ca_imageHistory := [''U1'']\<rparr>))
          \<notin> set (ca_savedImageUrls (CreativeAssistant_init\<lparr>ca_imageHistory := [''U1'']\<rparr>))"
    by (simp add: CreativeAssistant_init_def CreativeAssistant_currentImage_def js_at_def truthy_def)
  have f: "snd (FaceSwap_handleSave (FaceSwap_handleSave
       (FaceSwap_init\<lparr>fs_editHistory := [''X''], fs_editHistoryIndex := 0,
                       fs_originalImage := Some ''O''\<rparr>,
        \<lparr>libraryCreations = [], toasts = []\<rparr>)))
     = \<lparr>libraryCreations = [\<lparr>li_type = ''Face Swap'', li_imageUrl = ''X'',
                               li_originalUrl = Some ''O'', li_videoUrl = None\<rparr>],
        toasts = [''Saved to Library!'', ''Already saved!'']\<rparr>"
  proof -
    from inst pf have "FaceSwap_handleSave (FaceSwap_handleSave
       (FaceSwap_init\<lparr>fs_editHistory := [''X''], fs_editHistoryIndex := 0,
                       fs_originalImage := Some ''O''\<rparr>,
        \<lparr>libraryCreations = [], toasts = []\<rparr>))
      = (FaceSwap_init\<lparr>fs_editHistory := [''X''], fs_editHistoryIndex := 0,
                       fs_originalImage := Some ''O''\<rparr>\<lparr>fs_isSaved := True\<rparr>,
           \<lparr>libraryCreations = [], toasts = []\<rparr>\<lparr>libraryCreations :=
                \<lparr>li_type = ''Face Swap'',
                 li_imageUrl = the (FaceSwap_result (FaceSwap_init\<lparr>fs_editHistory := [''X''],
                     fs_editHistoryIndex := 0, fs_originalImage := Some ''O''\<rparr>)),
                 li_originalUrl = fs_originalImage (FaceSwap_init\<lparr>fs_editHistory := [''X''],
                     fs_editHistoryIndex := 0, fs_originalImage := Some ''O''\<rparr>),
                 li_videoUrl = None\<rparr>
                # libraryCreations \<lparr>libraryCreations = [], toasts = []\<rparr>,
              toasts := toasts \<lparr>libraryCreations = [], toasts = []\<rparr>
                        @ [''Saved to Library!'', ''Already saved!'']\<rparr>)"
      by blast
    then show ?thesis
      by (simp add: FaceSwap_init_def FaceSwap_result_def js_at_def)
  qed
  have g: "snd (BackgroundRemover_handleSave (BackgroundRemover_handleSave
       (BackgroundRemover_init\<lparr>br_editHistory := [''X''], br_editHistoryIndex := 0,
                                 br_originalImage := Some ''O''\<rparr>,
        \<lparr>libraryCreations = [], toasts = []\<rparr>)))
     = \<lparr>libraryCreations = [\<lparr>li_type = ''Background Edit'', li_imageUrl = ''X'',
                               li_originalUrl = Some ''O'', li_videoUrl = None\<rparr>],
        toasts = [''Saved to Library!'', ''Already saved!'']\<rparr>"
  proof -
    from inst pb have "BackgroundRemover_handleSave (BackgroundRemover_handleSave
       (BackgroundRemover_init\<lparr>br_editHistory := [''X''], br_editHistoryIndex := 0,
                                 br_originalImage := Some ''O''\<rparr>,
        \<lparr>libraryCreations = [], toasts = []\<rparr>))
      = (BackgroundRemover_init\<lparr>br_editHistory := [''X''], br_editHistoryIndex := 0,
                                 br_originalImage := Some ''O''\<rparr>\<lparr>br_isSaved := True\<rparr>,
           \<lparr>libraryCreations = [], toasts = []\<rparr>\<lparr>libraryCreations :=
                \<lparr>li_type = ''Background Edit'',
                 li_imageUrl = the (BackgroundRemover_finalResult (BackgroundRemover_init\<lparr>br_editHistory := [''X''],
                     br_editHistoryIndex := 0, br_originalImage := Some ''O''\<rparr>)),
                 li_originalUrl = br_originalImage (BackgroundRemover_init\<lparr>br_editHistory := [''X''],
                     br_editHistoryIndex := 0, br_originalImage := Some ''O''\<rparr>),
                 li_videoUrl = None\<rparr>
                # libraryCreations \<lparr>libraryCreations = [], toasts = []\<rparr>,
              toasts := toasts \<lparr>libraryCreations = [], toasts = []\<rparr>
                        @ [''Saved to Library!'', ''Already saved!'']\<rparr>)"
      by blast
    then show ?thesis
      by (simp add: BackgroundRemover_init_def BackgroundRemover_finalResult_def js_at_def)
  qed
  have h: "snd (CreativeAssistant_handleSaveToLibrary (CreativeAssistant_handleSaveToLibrary
       (CreativeAssistant_init\<lparr>ca_imageHistory := [''U1'']\<rparr>,
        \<lparr>libraryCreations = [], toasts = []\<rparr>)))
     = \<lparr>libraryCreations = [\<lparr>li_type = ''Jackson'' @ [CHR 0x27] @ ''s Creative AI'',
                               li_imageUrl = ''U1'', li_originalUrl = None, li_videoUrl = None\<rparr>],
        toasts = [''Saved to Library!'', ''Already saved!'']\<rparr>"
  proof -
    from inst pc have "CreativeAssistant_handleSaveToLibrary (CreativeAssistant_handleSaveToLibrary
       (CreativeAssistant_init\<lparr>ca_imageHistory := [''U1'']\<rparr>,
        \<lparr>libraryCreations = [], toasts = []\<rparr>))
      = (CreativeAssistant_init\<lparr>ca_imageHistory := [''U1'']\<rparr>
           \<lparr>ca_savedImageUrls := ca_savedImageUrls (CreativeAssistant_init\<lparr>ca_imageHistory := [''U1'']\<rparr>)
              @ [the (CreativeAssistant_currentImage (CreativeAssistant_init\<lparr>ca_imageHistory := [''U1'']\<rparr>))]\<rparr>,
           \<lparr>libraryCreations = [], toasts = []\<rparr>\<lparr>libraryCreations :=
                \<lparr>li_type = ''Jackson'' @ [CHR 0x27] @ ''s Creative AI'',
                 li_imageUrl = the (CreativeAssistant_currentImage (CreativeAssistant_init\<lparr>ca_imageHistory := [''U1'']\<rparr>)),
                 li_originalUrl = None, li_videoUrl = None\<rparr>
                # libraryCreations \<lparr>libraryCreations = [], toasts = []\<rparr>,
              toasts := toasts \<lparr>libraryCreations = [], toasts = []\<rparr>
                        @ [''Saved to Library!'', ''Already saved!'']\<rparr>)"
      by blast
    then show ?thesis
      by (simp add: CreativeAssistant_init_def CreativeAssistant_currentImage_def js_at_def)
  qed
  from f g h run d show ?thesis by blast
qed

text \<open>The cutout of BackgroundRemover, saved twice in a row under its own flag.\<close>

lemma save_cutout_twice_in_a_row:
  "truthy (br_foregroundImage br) \<and> \<not> br_isCutoutSaved br \<longrightarrow>
      BackgroundRemover_handleSaveCutout (br, a)
        = (br\<lparr>br_isCutoutSaved := True\<rparr>,
           a\<lparr>libraryCreations :=
                \<lparr>li_type = ''Foreground Cutout'', li_imageUrl = the (br_foregroundImage br),
                 li_originalUrl = None, li_videoUrl = None\<rparr> # libraryCreations a,
              toasts := toasts a @ [''Saved to Library!'']\<rparr>)
      \<and> BackgroundRemover_handleSaveCutout (BackgroundRemover_handleSaveCutout (br, a))
        = (br\<lparr>br_isCutoutSaved := True\<rparr>,
           a\<lparr>libraryCreations :=
                \<lparr>li_type = ''Foreground Cutout'', li_imageUrl = the (br_foregroundImage br),
                 li_originalUrl = None, li_videoUrl = None\<rparr> # libraryCreations a,
              toasts := toasts a @ [''Saved to Library!'', ''Cutout already saved!'']\<rparr>)"
  by (simp add: BackgroundRemover_handleSaveCutout_def Let_def handleCreationComplete_eq addToast_def)

text \<open>
  Claim C9 says that saving the same image twice yields exactly one library entry. The
  code guards the save of FaceSwap and of BackgroundRemover with the single flag
  \<open>isSaved\<close>, which \<open>handleEditComplete\<close> clears and \<open>handleUndo\<close> and \<open>handleRedo\<close> leave as
  it is, so the flag can disagree with the image at the cursor:
  \<^item> FaceSwap: generate \<open>X\<close>, save, edit to \<open>Y\<close>, undo. The current image is \<open>X\<close> again,
    already in the library, and the next save stores a second entry for \<open>X\<close>, with the
    notification of a first save. The same clicks in BackgroundRemover do the same.
  \<^item> FaceSwap: generate \<open>X\<close>, edit to \<open>Y\<close>, save, undo. The current image is \<open>X\<close>, never
    saved, and the next save stores nothing and notifies \<open>Already saved!\<close>.
  \<^item> CreativeAssistant, which looks the URL up in \<open>savedImageUrls\<close>: generate \<open>X\<close>, save,
    edit to \<open>Y\<close>, select \<open>X\<close> again, save. One entry.
\<close>

theorem C9_face_swap_saves_twice:
  "FaceSwap_result (fst (FaceSwap_run
       [FS_GenerateBegin \<lparr>img_data = Some ''QQ'', img_type = ''image/png''\<rparr>,
        FS_GenerateEnd (Inr ''X''), FS_Save, FS_EditComplete ''Y'', FS_Undo]
       (FaceSwap_init, \<lparr>libraryCreations = [], toasts = []\<rparr>))) = Some ''X''
   \<and> map li_imageUrl (libraryCreations (snd (FaceSwap_run
       [FS_GenerateBegin \<lparr>img_data = Some ''QQ'', img_type = ''image/png''\<rparr>,
        FS_GenerateEnd (Inr ''X''), FS_Save, FS_EditComplete ''Y'', FS_Undo]
       (FaceSwap_init, \<lparr>libraryCreations = [], toasts = []\<rparr>)))) = [''X'']
   \<and> map li_imageUrl (libraryCreations (snd (FaceSwap_run
       [FS_GenerateBegin \<lparr>img_data = Some ''QQ'', img_type = ''image/png''\<rparr>,
        FS_GenerateEnd (Inr ''X''), FS_Save, FS_EditComplete ''Y'', FS_Undo, FS_Save]
       (FaceSwap_init, \<lparr>libraryCreations = [], toasts = []\<rparr>)))) = [''X'', ''X'']
   \<and> toasts (snd (FaceSwap_run
       [FS_GenerateBegin \<lparr>img_data = Some ''QQ'', img_type = ''image/png''\<rparr>,
        FS_GenerateEnd (Inr ''X''), FS_Save, FS_EditComplete ''Y'', FS_Undo, FS_Save]
       (FaceSwap_init, \<lparr>libraryCreations = [], toasts = []\<rparr>)))
       = [''Saved to Library!'', ''Saved to Library!'']
   \<and> map li_imageUrl (libraryCreations (snd (BackgroundRemover_run
       [BR_InitialRemoval \<lparr>img_data = Some ''QQ'', img_type = ''image/png''\<rparr>
          (Inr ''data:image/png;base64,FG''),
        BR_GreenScreen (Inr ''X''), BR_Save, BR_EditComplete ''Y'', BR_Undo, BR_Save]
       (BackgroundRemover_init, \<lparr>libraryCreations = [], toasts = []\<rparr>)))) = [''X'', ''X'']
   \<and> FaceSwap_result (fst (FaceSwap_run
       [FS_GenerateBegin \<lparr>img_data = Some ''QQ'', img_type = ''image/png''\<rparr>,
        FS_GenerateEnd (Inr ''X''), FS_EditComplete ''Y'', FS_Save, FS_Undo]
       (FaceSwap_init, \<lparr>libraryCreations = [], toasts = []\<rparr>))) = Some ''X''
   \<and> map li_imageUrl (libraryCreations (snd (FaceSwap_run
       [FS_GenerateBegin \<lparr>img_data = Some ''QQ'', img_type = ''image/png''\<rparr>,
        FS_GenerateEnd (Inr ''X''), FS_EditComplete ''Y'', FS_Save, FS_Undo, FS_Save]
       (FaceSwap_init, \<lparr>libraryCreations = [], toasts = []\<rparr>)))) = [''Y'']
   \<and> toasts (snd (FaceSwap_run
       [FS_GenerateBegin \<lparr>img_data = Some ''QQ'', img_type = ''image/png''\<rparr>,
        FS_GenerateEnd (Inr ''X''), FS_EditComplete ''Y'', FS_Save, FS_Undo, FS_Save]
       (FaceSwap_init, \<lparr>libraryCreations = [], toasts = []\<rparr>)))
       = [''Saved to Library!'', ''Already saved!'']
   \<and> map li_imageUrl (libraryCreations (snd (CreativeAssistant_run
       [CA_GenerateContent ''p'' [ImageSettled (Inr ''X''), TextDone], CA_Save,
        CA_EditComplete ''Y'', CA_SelectThumbnail 0, CA_Save]
       (CreativeAssistant_init, \<lparr>libraryCreations = [], toasts = []\<rparr>)))) = [''X'']"
  by (simp add: FaceSwap_run_def FaceSwap_init_def FaceSwap_generate_begin_def
      FaceSwap_generate_end_def FaceSwap_handleSave_def FaceSwap_result_def
      FaceSwap_handleEditComplete_def FaceSwap_handleUndo_def FaceSwap_canUndo_def
      BackgroundRemover_run_def BackgroundRemover_init_def BackgroundRemover_handleInitialRemoval_def
      BackgroundRemover_removal_begin_def BackgroundRemover_removal_end_def
      BackgroundRemover_handleGreenScreen_def BackgroundRemover_background_end_def
      BackgroundRemover_handleSave_def BackgroundRemover_finalResult_def
      BackgroundRemover_handleEditComplete_def BackgroundRemover_handleUndo_def
      BackgroundRemover_canUndo_def
      CreativeAssistant_run_def CreativeAssistant_init_def content_begin_def content_join_def
      CreativeAssistant_handleSaveToLibrary_def CreativeAssistant_currentImage_def
      CreativeAssistant_handleEditComplete_def CreativeAssistant_selectThumbnail_def
      handleCreationComplete_eq addToast_def js_slice0_def js_at_def truthy_def dataUrl_def
      js_text_def Let_def)

subsection \<open>C5: what a failed call leaves behind\<close>






lemma BackgroundRemover_blank_prompt_returns:
  "js_blank (br_backgroundPrompt br) \<Longrightarrow>
     BackgroundRemover_handleGenerateBackground composite br = br"
  by (simp add: BackgroundRemover_handleGenerateBackground_def)
















subsection \<open>C4: the order of the content stage\<close>

lemma content_begin_inv': "content_inv s (content_begin p s)"
  by (simp add: content_inv_def content_begin_def)

lemma content_step_inv':
  assumes "content_step c e = Some c'" and "content_inv s c"
  shows "content_inv s c'"
proof (cases c)
  case (Pair r x)
  show ?thesis
  proof (cases e)
    case (ImageSettled outcome)
    then show ?thesis using assms Pair
      by (cases outcome)
        (auto simp add: content_inv_def content_fail_def lyrics_wanted_def split: if_splits)
  next
    case (TextChunk t)
    then show ?thesis using assms Pair
      by (auto simp add: content_inv_def split: if_splits)
  next
    case TextDone
    then show ?thesis using assms Pair
      by (auto simp add: content_inv_def content_join_def Let_def split: if_splits)
  next
    case (TextThrew m)
    then show ?thesis using assms Pair
      by (auto simp add: content_inv_def content_fail_def split: if_splits)
  next
    case (LyricsChunk t)
    then show ?thesis using assms Pair
      by (auto simp add: content_inv_def split: if_splits)
  next
    case LyricsDone
    then show ?thesis using assms Pair
      by (auto simp add: content_inv_def content_join_def Let_def split: if_splits)
  next
    case (LyricsThrew m)
    then show ?thesis using assms Pair
      by (auto simp add: content_inv_def content_fail_def split: if_splits)
  qed
qed

lemma content_exec_inv':
  "content_exec c es = Some c' \<Longrightarrow> content_inv s c \<Longrightarrow> content_inv s c'"
proof (induction es arbitrary: c)
  case Nil
  then show ?case by simp
next
  case (Cons e es)
  then show ?case by (auto split: option.splits dest: content_step_inv')
qed


lemma content_step_text_fulfilled:
  "content_step c e = Some c' \<Longrightarrow> cr_text (fst c') = Fulfilled
     \<Longrightarrow> cr_text (fst c) = Fulfilled \<or> e = TextDone"
  by (cases c; cases e)
     (auto simp add: content_fail_def content_join_def Let_def split: if_splits sum.splits)

lemma content_step_lyrics_fulfilled:
  "content_step c e = Some c' \<Longrightarrow> cr_lyrics (fst c') = Fulfilled
     \<Longrightarrow> cr_lyrics (fst c) = Fulfilled \<or> e = LyricsDone"
  by (cases c; cases e)
     (auto simp add: content_fail_def content_join_def Let_def split: if_splits sum.splits)

lemma content_exec_text_fulfilled:
  "content_exec c es = Some c' \<Longrightarrow> cr_text (fst c') = Fulfilled
     \<Longrightarrow> cr_text (fst c) = Fulfilled \<or> TextDone \<in> set es"
proof (induction es arbitrary: c)
  case Nil
  then show ?case by simp
next
  case (Cons e es)
  then obtain c1 where s1: "content_step c e = Some c1" and r: "content_exec c1 es = Some c'"
    by (auto split: option.splits)
  from Cons.IH [OF r Cons.prems(2)] show ?case
    using content_step_text_fulfilled [OF s1] by auto
qed

lemma content_exec_lyrics_fulfilled:
  "content_exec c es = Some c' \<Longrightarrow> cr_lyrics (fst c') = Fulfilled
     \<Longrightarrow> cr_lyrics (fst c) = Fulfilled \<or> LyricsDone \<in> set es"
proof (induction es arbitrary: c)
  case Nil
  then show ?case by simp
next
  case (Cons e es)
  then obtain c1 where s1: "content_step c e = Some c1" and r: "content_exec c1 es = Some c'"
    by (auto split: option.splits)
  from Cons.IH [OF r Cons.prems(2)] show ?case
    using content_step_lyrics_fulfilled [OF s1] by auto
qed

lemma content_step_idle:
  "cr_phase (fst c) \<noteq> AwaitImage \<Longrightarrow> cr_text (fst c) = NotStarted \<Longrightarrow> cr_lyrics (fst c) = NotStarted
     \<Longrightarrow> content_step c e = None"
  by (cases c; cases e) auto

lemma content_exec_idle:
  "cr_phase (fst c) \<noteq> AwaitImage \<Longrightarrow> cr_text (fst c) = NotStarted \<Longrightarrow> cr_lyrics (fst c) = NotStarted
     \<Longrightarrow> content_exec c es = Some c' \<Longrightarrow> c' = c"
  by (cases es) (simp_all add: content_step_idle)

lemma content_first_event:
  assumes "content_exec (content_begin p s) es = Some c'"
    and "cr_text (fst c') \<noteq> NotStarted \<or> cr_lyrics (fst c') \<noteq> NotStarted"
  shows "\<exists>url rest. es = ImageSettled (Inr url) # rest"
proof (cases es)
  case Nil
  with assms(1) have "c' = content_begin p s" by simp
  with assms(2) show ?thesis by (simp add: content_begin_def)
next
  case (Cons e rest)
  with assms(1) obtain c1 where s1: "content_step (content_begin p s) e = Some c1"
    and r: "content_exec c1 rest = Some c'"
    by (auto split: option.splits)
  from s1 obtain outcome where e: "e = ImageSettled outcome"
    by (cases e) (auto simp add: content_begin_def split: if_splits)
  show ?thesis
  proof (cases outcome)
    case (Inl m)
    with s1 e have "cr_phase (fst c1) \<noteq> AwaitImage" "cr_text (fst c1) = NotStarted"
      "cr_lyrics (fst c1) = NotStarted"
      by (auto simp add: content_begin_def content_fail_def)
    from content_exec_idle [OF this r] this assms(2) show ?thesis by simp
  next
    case (Inr url)
    with e Cons show ?thesis by simp
  qed
qed

text \<open>
  Claim C4. For every sequence of events that an invocation of \<open>handleGenerateContent\<close>
  can receive: while the handler awaits the image no stream task has started, and a task
  has started only if the first event was the success of the image call; once the text
  task has started, the lyrics task has started exactly when \<open>generateLyricsFlag\<close> is set
  and the genre is not \<open>None\<close>, and the lyrics task never runs without the text task; and
  if the stage has advanced to \<open>iterate\<close> the text task is fulfilled and its completion is
  among the events, and so is the lyrics task whenever it was wanted.
\<close>

theorem C4_content_stage_order:
  assumes "content_exec (content_begin finalPrompt s) es = Some (r, s')"
  shows "(cr_phase r = AwaitImage \<longrightarrow> cr_text r = NotStarted \<and> cr_lyrics r = NotStarted)
       \<and> (cr_text r \<noteq> NotStarted \<or> cr_lyrics r \<noteq> NotStarted \<longrightarrow>
            (\<exists>url rest. es = ImageSettled (Inr url) # rest))
       \<and> (cr_text r \<noteq> NotStarted \<longrightarrow>
            (cr_lyrics r \<noteq> NotStarted)
              = (ca_generateLyricsFlag s \<and> cc_genre (ca_controls s) \<noteq> ''None''))
       \<and> (cr_lyrics r \<noteq> NotStarted \<longrightarrow> cr_text r \<noteq> NotStarted)
       \<and> (ca_stage s \<noteq> CA_iterate \<and> ca_stage s' = CA_iterate \<longrightarrow>
            cr_text r = Fulfilled \<and> TextDone \<in> set es
            \<and> (ca_generateLyricsFlag s \<and> cc_genre (ca_controls s) \<noteq> ''None'' \<longrightarrow>
                 cr_lyrics r = Fulfilled \<and> LyricsDone \<in> set es))"
proof -
  have inv: "content_inv s (r, s')"
    using content_exec_inv' [OF assms content_begin_inv'] .
  have first: "cr_text r \<noteq> NotStarted \<or> cr_lyrics r \<noteq> NotStarted \<longrightarrow>
            (\<exists>url rest. es = ImageSettled (Inr url) # rest)"
    using content_first_event [OF assms] by simp
  have text0: "cr_text (fst (content_begin finalPrompt s)) \<noteq> Fulfilled"
    and lyrics0: "cr_lyrics (fst (content_begin finalPrompt s)) \<noteq> Fulfilled"
    by (simp_all add: content_begin_def)
  have td: "cr_text r = Fulfilled \<longrightarrow> TextDone \<in> set es"
    using content_exec_text_fulfilled [OF assms] text0 by simp
  have ld: "cr_lyrics r = Fulfilled \<longrightarrow> LyricsDone \<in> set es"
    using content_exec_lyrics_fulfilled [OF assms] lyrics0 by simp
  from inv have
    i1: "cr_phase r \<noteq> AwaitImage \<or> (cr_text r = NotStarted \<and> cr_lyrics r = NotStarted)" and
    i2: "cr_text r = NotStarted
         \<or> (cr_lyrics r \<noteq> NotStarted) = (ca_generateLyricsFlag s \<and> cc_genre (ca_controls s) \<noteq> ''None'')" and
    i3: "cr_phase r = AwaitImage \<or> cr_text r \<noteq> NotStarted
         \<or> (cr_phase r = Settled \<and> cr_lyrics r = NotStarted)" and
    i4: "ca_stage s' = ca_stage s
         \<or> (ca_stage s' = CA_iterate \<and> cr_phase r = Settled \<and> cr_text r = Fulfilled
             \<and> (cr_lyrics r = Fulfilled \<or> cr_lyrics r = NotStarted))"
    by (simp_all add: content_inv_def lyrics_wanted_def)
  have a: "cr_phase r = AwaitImage \<longrightarrow> cr_text r = NotStarted \<and> cr_lyrics r = NotStarted"
    using i1 by blast
  have b: "cr_text r \<noteq> NotStarted \<longrightarrow>
            (cr_lyrics r \<noteq> NotStarted)
              = (ca_generateLyricsFlag s \<and> cc_genre (ca_controls s) \<noteq> ''None'')"
    using i2 by blast
  have c: "cr_lyrics r \<noteq> NotStarted \<longrightarrow> cr_text r \<noteq> NotStarted"
    using i1 i3 by blast
  have d: "ca_stage s \<noteq> CA_iterate \<and> ca_stage s' = CA_iterate \<longrightarrow>
            cr_text r = Fulfilled \<and> TextDone \<in> set es
            \<and> (ca_generateLyricsFlag s \<and> cc_genre (ca_controls s) \<noteq> ''None'' \<longrightarrow>
                 cr_lyrics r = Fulfilled \<and> LyricsDone \<in> set es)"
  proof (intro impI)
    assume h: "ca_stage s \<noteq> CA_iterate \<and> ca_stage s' = CA_iterate"
    with i4 have f: "cr_text r = Fulfilled" and l: "cr_lyrics r = Fulfilled \<or> cr_lyrics r = NotStarted"
      by auto
    from f have started: "cr_text r \<noteq> NotStarted" by simp
    show "cr_text r = Fulfilled \<and> TextDone \<in> set es
            \<and> (ca_generateLyricsFlag s \<and> cc_genre (ca_controls s) \<noteq> ''None'' \<longrightarrow>
                 cr_lyrics r = Fulfilled \<and> LyricsDone \<in> set es)"
      using f td l ld b started by blast
  qed
  from a first b c d show ?thesis by blast
qed

text \<open>
  The scenario of the specification, with the flag set and the genre \<open>Rock\<close>: the lyrics
  stream completes first and the stage is still \<open>content\<close>, with the text stream running;
  after the text stream completes the stage is \<open>iterate\<close>. A text chunk before the image
  result is not a possible event.
\<close>

theorem C4_content_stage_witness:
  "ca_stage (snd (the (content_exec (content_begin ''p'' rock_lyrics_state)
       [ImageSettled (Inr ''U''), TextChunk ''Hi'', LyricsChunk ''La'', LyricsDone]))) = CA_content
   \<and> cr_lyrics (fst (the (content_exec (content_begin ''p'' rock_lyrics_state)
       [ImageSettled (Inr ''U''), TextChunk ''Hi'', LyricsChunk ''La'', LyricsDone]))) = Fulfilled
   \<and> cr_text (fst (the (content_exec (content_begin ''p'' rock_lyrics_state)
       [ImageSettled (Inr ''U''), TextChunk ''Hi'', LyricsChunk ''La'', LyricsDone]))) = Running
   \<and> ca_stage (snd (the (content_exec (content_begin ''p'' rock_lyrics_state)
       [ImageSettled (Inr ''U''), TextChunk ''Hi'', LyricsChunk ''La'', LyricsDone, TextDone])))
       = CA_iterate
   \<and> cr_text (fst (the (content_exec (content_begin ''p'' rock_lyrics_state)
       [ImageSettled (Inr ''U''), TextChunk ''Hi'', LyricsChunk ''La'', LyricsDone, TextDone])))
       = Fulfilled
   \<and> cr_lyrics (fst (the (content_exec (content_begin ''p'' rock_lyrics_state)
       [ImageSettled (Inr ''U''), TextChunk ''Hi'', LyricsChunk ''La'', LyricsDone, TextDone])))
       = Fulfilled
   \<and> TextDone \<in> set [ImageSettled (Inr ''U''), TextChunk ''Hi'', LyricsChunk ''La'', LyricsDone, TextDone]
   \<and> LyricsDone \<in> set [ImageSettled (Inr ''U''), TextChunk ''Hi'', LyricsChunk ''La'', LyricsDone, TextDone]
   \<and> content_exec (content_begin ''p'' rock_lyrics_state) [TextChunk ''Hi''] = None"
proof -
  let ?part = "[ImageSettled (Inr ''U''), TextChunk ''Hi'', LyricsChunk ''La'', LyricsDone]"
  let ?full = "[ImageSettled (Inr ''U''), TextChunk ''Hi'', LyricsChunk ''La'', LyricsDone, TextDone]"
  have part: "ca_stage (snd (the (content_exec (content_begin ''p'' rock_lyrics_state) ?part))) = CA_content
      \<and> cr_lyrics (fst (the (content_exec (content_begin ''p'' rock_lyrics_state) ?part))) = Fulfilled
      \<and> cr_text (fst (the (content_exec (content_begin ''p'' rock_lyrics_state) ?part))) = Running"
    by (simp add: content_begin_def content_join_def rock_lyrics_state_def CreativeAssistant_init_def
        Let_def)
  have early: "content_exec (content_begin ''p'' rock_lyrics_state) [TextChunk ''Hi''] = None"
    by (simp add: content_begin_def)
  have run: "content_exec (content_begin ''p'' rock_lyrics_state) ?full
      = Some (fst (the (content_exec (content_begin ''p'' rock_lyrics_state) ?full)),
              snd (the (content_exec (content_begin ''p'' rock_lyrics_state) ?full)))"
    by (simp add: content_begin_def content_join_def rock_lyrics_state_def CreativeAssistant_init_def
        Let_def)
  have stage: "ca_stage rock_lyrics_state \<noteq> CA_iterate
      \<and> ca_stage (snd (the (content_exec (content_begin ''p'' rock_lyrics_state) ?full))) = CA_iterate"
    by (simp add: content_begin_def content_join_def rock_lyrics_state_def CreativeAssistant_init_def
        Let_def)
  have wanted: "ca_generateLyricsFlag rock_lyrics_state
      \<and> cc_genre (ca_controls rock_lyrics_state) \<noteq> ''None''"
    by (simp add: rock_lyrics_state_def CreativeAssistant_init_def)
  from C4_content_stage_order [OF run] stage wanted
  have settled: "cr_text (fst (the (content_exec (content_begin ''p'' rock_lyrics_state) ?full))) = Fulfilled
      \<and> TextDone \<in> set ?full
      \<and> cr_lyrics (fst (the (content_exec (content_begin ''p'' rock_lyrics_state) ?full))) = Fulfilled
      \<and> LyricsDone \<in> set ?full"
    by blast
  from part early stage settled show ?thesis by blast
qed

end
